theory Spec2Isabelle
  imports Main "HOL-Library.Multiset"
begin

section \<open>JavaScript values\<close>

text \<open>
  The three programs (the snapshot step \<^verbatim>\<open>fetch-cms-data.js\<close>, the proxy
  \<^verbatim>\<open>netlify/functions/movie.js\<close> and the page script \<^verbatim>\<open>js/live.js\<close>) handle data
  that arrived as JSON. A JSON document is a value of type \<open>json\<close>; a JavaScript value is
  a \<open>json option\<close>, where \<open>None\<close> is \<^verbatim>\<open>undefined\<close> (what reading an absent property
  gives). Numbers are the integer-valued ones. An object is the association list of its
  own properties, read with \<open>map_of\<close>. Strings are byte strings (UTF-8).
\<close>

datatype json =
    JNull
  | JBool bool
  | JNum int
  | JStr string
  | JArr "json list"
  | JObj "(string \<times> json) list"

type_synonym jsval = "json option"

datatype js_error =
    Error string
  | TypeError string
  | SyntaxError string

fun message :: "js_error \<Rightarrow> string" where
  "message (Error m) = m"
| "message (TypeError m) = m"
| "message (SyntaxError m) = m"

text \<open>Truthiness, as \<^verbatim>\<open>!x\<close>, \<^verbatim>\<open>x || y\<close> and \<^verbatim>\<open>if (x)\<close> test it.\<close>

fun truthy :: "jsval \<Rightarrow> bool" where
  "truthy None = False"
| "truthy (Some JNull) = False"
| "truthy (Some (JBool b)) = b"
| "truthy (Some (JNum n)) = (n \<noteq> 0)"
| "truthy (Some (JStr s)) = (s \<noteq> [])"
| "truthy (Some (JArr xs)) = True"
| "truthy (Some (JObj kvs)) = True"

definition js_or :: "jsval \<Rightarrow> jsval \<Rightarrow> jsval" where
  "js_or a b = (if truthy a then a else b)"

text \<open>
  \<open>field j k\<close> is \<^verbatim>\<open>j.k\<close> for a value that is neither \<^verbatim>\<open>null\<close> nor
  \<^verbatim>\<open>undefined\<close>: the own property of an object, \<^verbatim>\<open>undefined\<close> otherwise. None of the
  property names the programs read from parsed JSON is a data property of a string, a
  number, a boolean or an array; \<^verbatim>\<open>includes\<close> is a method of strings and arrays, and the
  only thing read from it is its property \<^verbatim>\<open>Asset\<close>, which is \<^verbatim>\<open>undefined\<close> as it is in
  the model. Reading a property of \<^verbatim>\<open>null\<close> or \<^verbatim>\<open>undefined\<close> throws a TypeError (the
  message is the engine's; V8's is used): \<open>non_null v k\<close> is the check made before
  \<^verbatim>\<open>v.k\<close> is read, \<open>get_prop v k\<close> is \<^verbatim>\<open>v.k\<close>, and \<open>opt_prop v k\<close> is \<^verbatim>\<open>v?.k\<close>.
\<close>

fun field :: "json \<Rightarrow> string \<Rightarrow> jsval" where
  "field (JObj kvs) k = map_of kvs k"
| "field _ k = None"

definition cannot_read :: "string \<Rightarrow> string \<Rightarrow> js_error" where
  "cannot_read what k =
     TypeError (''Cannot read properties of '' @ what @ '' (reading '' @ [CHR 0x27] @ k @ [CHR 0x27] @ '')'')"

fun non_null :: "jsval \<Rightarrow> string \<Rightarrow> js_error + json" where
  "non_null None k = Inl (cannot_read ''undefined'' k)"
| "non_null (Some JNull) k = Inl (cannot_read ''null'' k)"
| "non_null (Some j) k = Inr j"

definition get_prop :: "jsval \<Rightarrow> string \<Rightarrow> js_error + jsval" where
  "get_prop v k = (case non_null v k of Inl e \<Rightarrow> Inl e | Inr j \<Rightarrow> Inr (field j k))"

fun opt_prop :: "jsval \<Rightarrow> string \<Rightarrow> jsval" where
  "opt_prop None k = None"
| "opt_prop (Some JNull) k = None"
| "opt_prop (Some j) k = field j k"

text \<open>Conversion to a string, as template literals and property keys do it.\<close>

fun string_of_nat :: "nat \<Rightarrow> string" where
  "string_of_nat n =
     (if n < 10 then [''0123456789'' ! n]
      else string_of_nat (n div 10) @ [''0123456789'' ! (n mod 10)])"

declare string_of_nat.simps [simp del]

definition string_of_int :: "int \<Rightarrow> string" where
  "string_of_int i =
     (if i < 0 then CHR ''-'' # string_of_nat (nat (- i)) else string_of_nat (nat i))"

fun join :: "string \<Rightarrow> string list \<Rightarrow> string" where
  "join sep [] = []"
| "join sep [s] = s"
| "join sep (s # t # ss) = s @ sep @ join sep (t # ss)"

fun ToString :: "json \<Rightarrow> string" where
  "ToString JNull = ''null''"
| "ToString (JBool b) = (if b then ''true'' else ''false'')"
| "ToString (JNum n) = string_of_int n"
| "ToString (JStr s) = s"
| "ToString (JArr xs) = join '','' (map (\<lambda>x. if x = JNull then [] else ToString x) xs)"
| "ToString (JObj kvs) = ''[object Object]''"

definition template :: "jsval \<Rightarrow> string" where
  "template v = (case v of None \<Rightarrow> ''undefined'' | Some j \<Rightarrow> ToString j)"

text \<open>
  \<^verbatim>\<open>JSON.stringify\<close> of an object literal whose property values are JavaScript values:
  a property whose value is \<^verbatim>\<open>undefined\<close> is left out of the document. The model keeps
  the document, not its text.
\<close>

definition JSON_stringify :: "(string \<times> jsval) list \<Rightarrow> json" where
  "JSON_stringify props = JObj (List.map_filter (\<lambda>(k, v). map_option (Pair k) v) props)"

definition keys_of :: "json \<Rightarrow> string list" where
  "keys_of j = (case j of JObj kvs \<Rightarrow> map fst kvs | _ \<Rightarrow> [])"

definition has_key :: "json \<Rightarrow> string \<Rightarrow> bool" where
  "has_key j k = (k \<in> set (keys_of j))"

text \<open>\<^verbatim>\<open>v || d\<close> when the right operand is a document: the result is one as well.\<close>

definition or_else :: "jsval \<Rightarrow> json \<Rightarrow> json" where
  "or_else v d = (case v of None \<Rightarrow> d | Some j \<Rightarrow> if truthy v then j else d)"

text \<open>\<^verbatim>\<open>encodeURIComponent\<close> on a UTF-8 string: every byte outside the unreserved set
  becomes \<^verbatim>\<open>%XX\<close>.\<close>

definition unreserved :: "char \<Rightarrow> bool" where
  "unreserved c =
     (c \<in> set (''ABCDEFGHIJKLMNOPQRSTUVWXYZabcdefghijklmnopqrstuvwxyz0123456789-_.!~*()''
               @ [CHR 0x27]))"

definition percent :: "char \<Rightarrow> string" where
  "percent c = (let n = (of_char c :: nat) in
     [CHR ''%'', ''0123456789ABCDEF'' ! (n div 16), ''0123456789ABCDEF'' ! (n mod 16)])"

definition encodeURIComponent :: "string \<Rightarrow> string" where
  "encodeURIComponent s = concat (map (\<lambda>c. if unreserved c then [c] else percent c) s)"

section \<open>The environment: network, console, files\<close>

text \<open>
  \<^verbatim>\<open>fetch(url)\<close> either rejects or resolves to a response; \<^verbatim>\<open>response.json()\<close> either
  rejects (malformed body) or gives the parsed document. The network is a function from
  the requested URL to the outcome; every request is recorded in the world, as are the
  console lines and the files written, in order.
\<close>

record response =
  status :: nat
  content_type :: "string option"
  json_body :: "js_error + json"

definition ok :: "response \<Rightarrow> bool" where
  "ok r = (200 \<le> status r \<and> status r \<le> 299)"

datatype fetch_outcome = Rejected js_error | Resolved response

type_synonym network = "string \<Rightarrow> fetch_outcome"

datatype level = Log | Warn | Err

record world =
  requests :: "string list"
  console :: "(level \<times> string) list"
  files :: "(string \<times> json) list"

definition console_log :: "string \<Rightarrow> 'a world_scheme \<Rightarrow> 'a world_scheme" where
  "console_log s w = w\<lparr>console := console w @ [(Log, s)]\<rparr>"

definition console_warn :: "string \<Rightarrow> 'a world_scheme \<Rightarrow> 'a world_scheme" where
  "console_warn s w = w\<lparr>console := console w @ [(Warn, s)]\<rparr>"

definition console_error :: "string \<Rightarrow> 'a world_scheme \<Rightarrow> 'a world_scheme" where
  "console_error s w = w\<lparr>console := console w @ [(Err, s)]\<rparr>"

definition fetch :: "network \<Rightarrow> string \<Rightarrow> 'a world_scheme \<Rightarrow> fetch_outcome \<times> 'a world_scheme" where
  "fetch net url w = (net url, w\<lparr>requests := requests w @ [url]\<rparr>)"

definition writeFileSync :: "string \<Rightarrow> json \<Rightarrow> world \<Rightarrow> world" where
  "writeFileSync path doc w = w\<lparr>files := files w @ [(path, doc)]\<rparr>"

record env =
  NODE_ENV :: "string option"
  CONTENTFUL_SPACE_ID :: "string option"
  CONTENTFUL_ACCESS_TOKEN :: "string option"

section \<open>The live enrichment proxy (netlify/functions/movie.js)\<close>

record event =
  queryStringParameters :: "(string \<times> string) list option"

record http_response =
  statusCode :: nat
  headers :: "(string \<times> string) list"
  body :: json

definition json_headers :: "(string \<times> string) list" where
  "json_headers =
     [(''Content-Type'', ''application/json''), (''Access-Control-Allow-Origin'', ''*'')]"

definition OMDB_API_KEY :: string where
  "OMDB_API_KEY = ''daa92efe''"

definition apiUrl :: "string \<Rightarrow> string" where
  "apiUrl title =
     ''https://www.omdbapi.com/?apikey='' @ OMDB_API_KEY @ ''&t='' @ encodeURIComponent title"

text \<open>\<^verbatim>\<open>const { title } = event.queryStringParameters || {}\<close>\<close>

definition title_param :: "event \<Rightarrow> string option" where
  "title_param ev =
     (case queryStringParameters ev of None \<Rightarrow> None | Some q \<Rightarrow> map_of q ''title'')"

definition missing_title :: http_response where
  "missing_title =
     \<lparr>statusCode = 400, headers = json_headers,
      body = JSON_stringify
        [(''error'', Some (JStr ''Missing required parameter: title'')),
         (''message'', Some (JStr ''Please provide a movie title in the query string''))]\<rparr>"

definition not_found :: "json \<Rightarrow> http_response" where
  "not_found dat =
     \<lparr>statusCode = 404, headers = json_headers,
      body = JSON_stringify
        [(''error'', Some (JStr ''Movie not found'')),
         (''message'',
            js_or (field dat ''Error'') (Some (JStr ''No movie found with that title'')))]\<rparr>"

text \<open>The object \<^verbatim>\<open>movieData\<close>, property by property, in the order of the literal.\<close>

definition movieData :: "json \<Rightarrow> (string \<times> jsval) list" where
  "movieData dat =
     [(''title'', field dat ''Title''),
      (''imdbRating'', js_or (field dat ''imdbRating'') (Some (JStr ''N/A''))),
      (''runtime'', js_or (field dat ''Runtime'') (Some (JStr ''N/A''))),
      (''genre'', js_or (field dat ''Genre'') (Some (JStr ''N/A''))),
      (''actors'', js_or (field dat ''Actors'') (Some (JStr ''N/A''))),
      (''plot'', js_or (field dat ''Plot'') (Some (JStr ''N/A''))),
      (''poster'',
         if field dat ''Poster'' \<noteq> Some (JStr ''N/A'') then field dat ''Poster''
         else Some JNull),
      (''year'', js_or (field dat ''Year'') (Some (JStr ''N/A''))),
      (''director'', js_or (field dat ''Director'') (Some (JStr ''N/A'')))]"

definition found :: "(string \<times> jsval) list \<Rightarrow> http_response" where
  "found md =
     \<lparr>statusCode = 200,
      headers = json_headers @ [(''Cache-Control'', ''public, max-age=3600'')],
      body = JSON_stringify md\<rparr>"

text \<open>
  The body of the \<^verbatim>\<open>try\<close> block: \<open>Inl e\<close> when it throws \<open>e\<close>, \<open>Inr r\<close> when it
  returns the response \<open>r\<close>.
\<close>

definition handler_try :: "network \<Rightarrow> event \<Rightarrow> world \<Rightarrow> (js_error + http_response) \<times> world" where
  "handler_try net ev w =
     (case title_param ev of
        None \<Rightarrow> (Inr missing_title, w)
      | Some title \<Rightarrow>
          if title = [] then (Inr missing_title, w)
          else
            let w1 = console_log (''Fetching movie data for: '' @ title) w;
                (outcome, w2) = fetch net (apiUrl title) w1
            in case outcome of
                 Rejected e \<Rightarrow> (Inl e, w2)
               | Resolved r \<Rightarrow>
                   if \<not> ok r then
                     (Inl (Error (''OMDB API returned status '' @ string_of_nat (status r))), w2)
                   else
                     (case json_body r of
                        Inl e \<Rightarrow> (Inl e, w2)
                      | Inr dat \<Rightarrow>
                          (case get_prop (Some dat) ''Response'' of
                             Inl e \<Rightarrow> (Inl e, w2)
                           | Inr answer \<Rightarrow>
                               if answer = Some (JStr ''False'') then (Inr (not_found dat), w2)
                               else
                                 let md = movieData dat;
                                     w3 = console_log
                                       (''Successfully fetched data for: ''
                                          @ template (field dat ''Title'')) w2
                                 in (Inr (found md), w3))))"

text \<open>The \<^verbatim>\<open>catch\<close> block.\<close>

definition handler_catch :: "env \<Rightarrow> js_error \<Rightarrow> http_response" where
  "handler_catch e err =
     \<lparr>statusCode = 500, headers = json_headers,
      body = JSON_stringify
        [(''error'', Some (JStr ''Internal server error'')),
         (''message'', Some (JStr ''Failed to fetch movie data. Please try again later.'')),
         (''details'',
            if NODE_ENV e = Some ''development'' then Some (JStr (message err)) else None)]\<rparr>"

definition handler :: "env \<Rightarrow> network \<Rightarrow> event \<Rightarrow> world \<Rightarrow> http_response \<times> world" where
  "handler e net ev w =
     (case handler_try net ev w of
        (Inr r, w') \<Rightarrow> (r, w')
      | (Inl err, w') \<Rightarrow>
          (handler_catch e err,
           console_error (''Error in movie serverless function: '' @ message err) w'))"

section \<open>The snapshot step (fetch-cms-data.js)\<close>

definition snapshot_path :: string where
  "snapshot_path = ''_data/cmsData.json''"

definition empty_snapshot :: json where
  "empty_snapshot = JSON_stringify [(''movies'', Some (JArr []))]"

definition placeholder :: string where
  "placeholder = ''https://via.placeholder.com/300x450''"

text \<open>An environment variable inside a template literal.\<close>

definition env_text :: "string option \<Rightarrow> string" where
  "env_text v = template (map_option JStr v)"

definition contentful_url :: "string option \<Rightarrow> string option \<Rightarrow> string" where
  "contentful_url SPACE_ID ACCESS_TOKEN =
     ''https://cdn.contentful.com/spaces/'' @ env_text SPACE_ID
       @ ''/environments/master/entries?content_type=movie&include=2&access_token=''
       @ env_text ACCESS_TOKEN"

text \<open>
  The asset table \<^verbatim>\<open>assets\<close> maps an asset id to its URL. One call of the
  \<^verbatim>\<open>forEach\<close> callback either throws or returns the table, updated when the asset has
  a file URL.
\<close>

definition asset_step :: "json \<Rightarrow> (string \<rightharpoonup> string) \<Rightarrow> js_error + (string \<rightharpoonup> string)" where
  "asset_step asset assets =
     (case get_prop (Some asset) ''fields'' of
        Inl e \<Rightarrow> Inl e
      | Inr asset_fields \<Rightarrow>
          (case get_prop asset_fields ''file'' of
             Inl e \<Rightarrow> Inl e
           | Inr file \<Rightarrow>
               let fileUrl = js_or (opt_prop file ''url'') (opt_prop (opt_prop file ''file'') ''url'')
               in if truthy fileUrl then
                    (case get_prop (Some asset) ''sys'' of
                       Inl e \<Rightarrow> Inl e
                     | Inr sys \<Rightarrow>
                         (case get_prop sys ''id'' of
                            Inl e \<Rightarrow> Inl e
                          | Inr asset_id \<Rightarrow>
                              Inr (assets(template asset_id \<mapsto> ''https:'' @ template fileUrl))))
                  else Inr assets))"

fun forEach_asset :: "json list \<Rightarrow> (string \<rightharpoonup> string) \<Rightarrow> js_error + (string \<rightharpoonup> string)" where
  "forEach_asset [] assets = Inr assets"
| "forEach_asset (asset # rest) assets =
     (case asset_step asset assets of
        Inl e \<Rightarrow> Inl e
      | Inr assets' \<Rightarrow> forEach_asset rest assets')"

definition extract_assets :: "json \<Rightarrow> js_error + (string \<rightharpoonup> string)" where
  "extract_assets dat =
     (case get_prop (Some dat) ''includes'' of
        Inl e \<Rightarrow> Inl e
      | Inr includes \<Rightarrow>
          if truthy (opt_prop includes ''Asset'') then
            (case opt_prop includes ''Asset'' of
               Some (JArr entries) \<Rightarrow> forEach_asset entries Map.empty
             | _ \<Rightarrow> Inl (TypeError ''data.includes.Asset.forEach is not a function''))
          else Inr Map.empty)"

text \<open>
  \<^verbatim>\<open>posterId\<close>: the id of the first entry of the poster list, \<^verbatim>\<open>null\<close> when the
  property is not a non-empty array.
\<close>

definition posterId_of :: "jsval \<Rightarrow> js_error + jsval" where
  "posterId_of poster =
     (case poster of
        Some (JArr (first # rest)) \<Rightarrow>
          (case get_prop (Some first) ''sys'' of
             Inl e \<Rightarrow> Inl e
           | Inr sys \<Rightarrow> get_prop sys ''id'')
      | _ \<Rightarrow> Inr (Some JNull))"

text \<open>The \<^verbatim>\<open>map\<close> callback: the movie object of one item, as it is serialised.\<close>

definition movie_of :: "(string \<rightharpoonup> string) \<Rightarrow> json \<Rightarrow> js_error + json" where
  "movie_of assets item =
     (case get_prop (Some item) ''fields'' of
        Inl e \<Rightarrow> Inl e
      | Inr fieldsv \<Rightarrow>
          (case non_null fieldsv ''poster'' of
             Inl e \<Rightarrow> Inl e
           | Inr item_fields \<Rightarrow>
               (case posterId_of (field item_fields ''poster'') of
                  Inl e \<Rightarrow> Inl e
                | Inr posterId \<Rightarrow>
                    (case non_null (field item ''sys'') ''id'' of
                       Inl e \<Rightarrow> Inl e
                     | Inr sys \<Rightarrow>
                         Inr (JSON_stringify
                           [(''id'', field sys ''id''),
                            (''title'', js_or (field item_fields ''title'') (Some (JStr ''Untitled''))),
                            (''director'', js_or (field item_fields ''director'') (Some (JStr ''Unknown''))),
                            (''releaseYear'', js_or (field item_fields ''releaseYear'') (Some (JNum 0))),
                            (''genre'', js_or (field item_fields ''genre'') (Some (JStr ''Unknown''))),
                            (''rating'', js_or (field item_fields ''rating'') (Some (JNum 0))),
                            (''description'', js_or (field item_fields ''description'') (Some (JStr ''''))),
                            (''poster'',
                               if truthy posterId then map_option JStr (assets (template posterId))
                               else Some (JStr placeholder)),
                            (''source'', Some (JStr ''contentful'')),
                            (''createdAt'', field sys ''createdAt''),
                            (''updatedAt'', field sys ''updatedAt'')])))))"

fun map_items :: "(json \<Rightarrow> js_error + json) \<Rightarrow> json list \<Rightarrow> js_error + json list" where
  "map_items f [] = Inr []"
| "map_items f (item # rest) =
     (case f item of
        Inl e \<Rightarrow> Inl e
      | Inr m \<Rightarrow> (case map_items f rest of Inl e \<Rightarrow> Inl e | Inr ms \<Rightarrow> Inr (m # ms)))"

definition convert_movies :: "json \<Rightarrow> js_error + json list" where
  "convert_movies dat =
     (case extract_assets dat of
        Inl e \<Rightarrow> Inl e
      | Inr assets \<Rightarrow>
          (case field dat ''items'' of
             None \<Rightarrow> Inl (cannot_read ''undefined'' ''map'')
           | Some JNull \<Rightarrow> Inl (cannot_read ''null'' ''map'')
           | Some (JArr items) \<Rightarrow> map_items (movie_of assets) items
           | Some _ \<Rightarrow> Inl (TypeError ''data.items.map is not a function'')))"

text \<open>The body of the \<^verbatim>\<open>try\<close> block, entered when both credentials are present.\<close>

definition fetch_try :: "env \<Rightarrow> network \<Rightarrow> world \<Rightarrow> (js_error + unit) \<times> world" where
  "fetch_try e net w =
     (let w1 = console_log ''Fetching movies from Contentful...'' w;
          (outcome, w2) =
             fetch net (contentful_url (CONTENTFUL_SPACE_ID e) (CONTENTFUL_ACCESS_TOKEN e)) w1
      in case outcome of
           Rejected err \<Rightarrow> (Inl err, w2)
         | Resolved r \<Rightarrow>
             if \<not> ok r then
               (Inl (Error (''Contentful API Error: '' @ string_of_nat (status r))), w2)
             else
               (case json_body r of
                  Inl err \<Rightarrow> (Inl err, w2)
                | Inr dat \<Rightarrow>
                    (case convert_movies dat of
                       Inl err \<Rightarrow> (Inl err, w2)
                     | Inr movies \<Rightarrow>
                         let w3 = console_log
                                    (''Loaded '' @ string_of_nat (length movies)
                                       @ '' movies from Contentful'') w2;
                             w4 = writeFileSync snapshot_path
                                    (JSON_stringify [(''movies'', Some (JArr movies))]) w3;
                             w5 = console_log (''Saved CMS data to '' @ snapshot_path) w4
                         in (Inr (), w5))))"

text \<open>
  \<^verbatim>\<open>fetchContentfulData\<close>. The first component is how the call completes: \<open>Inr ()\<close>
  when it returns, \<open>Inl e\<close> when \<open>e\<close> escapes it. Writing the file is taken to succeed.
\<close>

definition present :: "string option \<Rightarrow> bool" where
  "present v = truthy (map_option JStr v)"

definition fetchContentfulData :: "env \<Rightarrow> network \<Rightarrow> world \<Rightarrow> (js_error + unit) \<times> world" where
  "fetchContentfulData e net w =
     (let w0 = console_log ''Checking Contentful credentials...'' w
      in if \<not> present (CONTENTFUL_SPACE_ID e) \<or> \<not> present (CONTENTFUL_ACCESS_TOKEN e) then
           (Inr (),
            writeFileSync snapshot_path empty_snapshot
              (console_warn ''   Creating empty cmsData.json file...''
                (console_warn ''Missing Contentful environment variables!'' w0)))
         else
           (case fetch_try e net w0 of
              (Inr u, w') \<Rightarrow> (Inr (), w')
            | (Inl err, w') \<Rightarrow>
                (Inr (),
                 writeFileSync snapshot_path empty_snapshot
                   (console_warn ''   Creating empty cmsData.json file...''
                     (console_error (''Error loading Contentful data: '' @ message err) w')))))"

section \<open>The collection merger (eleventy.config.js)\<close>

text \<open>
  A movie object as the comparator of the \<^verbatim>\<open>allMovies\<close> collection sees it: its
  \<^verbatim>\<open>releaseYear\<close> (\<open>None\<close> when the property is absent) and the value of
  \<^verbatim>\<open>a.data?.releaseYear\<close> (\<open>None\<close> when there is no nested \<^verbatim>\<open>data\<close> object or it has
  no such property), with the id and source tag to tell the objects apart. Years are
  integers.
\<close>

record movie =
  movie_id :: string
  releaseYear :: "int option"
  data_releaseYear :: "int option"
  source :: "string option"

text \<open>
  The snapshot file as the collection callback finds it: absent, not parsable (the
  exception is caught and \<^verbatim>\<open>cmsMovies\<close> stays empty), or a document whose
  \<^verbatim>\<open>movies\<close> property is the given list (\<open>None\<close> when the property is missing).
\<close>

datatype snapshot_file = Absent | Unparsable | Document "movie list option"

fun read_cmsMovies :: "snapshot_file \<Rightarrow> movie list" where
  "read_cmsMovies Absent = []"
| "read_cmsMovies Unparsable = []"
| "read_cmsMovies (Document None) = []"
| "read_cmsMovies (Document (Some movies)) = movies"

text \<open>
  A template of \<^verbatim>\<open>movies/*.md\<close>: its file slug and the front matter that is spread into
  the movie object.
\<close>

record template_item =
  fileSlug :: string
  item_releaseYear :: "int option"
  item_data_releaseYear :: "int option"
  item_source :: "string option"

definition localMovie :: "template_item \<Rightarrow> movie" where
  "localMovie item =
     \<lparr>movie_id = fileSlug item,
      releaseYear = item_releaseYear item,
      data_releaseYear = item_data_releaseYear item,
      source = (if present (item_source item) then item_source item else Some ''local'')\<rparr>"

text \<open>\<^verbatim>\<open>a || b\<close> on an optional number and a number.\<close>

definition num_or :: "int option \<Rightarrow> int \<Rightarrow> int" where
  "num_or a b = (case a of None \<Rightarrow> b | Some y \<Rightarrow> if y \<noteq> 0 then y else b)"

text \<open>\<^verbatim>\<open>a.releaseYear || a.data?.releaseYear || 0\<close>\<close>

definition yearOf :: "movie \<Rightarrow> int" where
  "yearOf a = num_or (releaseYear a) (num_or (data_releaseYear a) 0)"

definition compareFn :: "movie \<Rightarrow> movie \<Rightarrow> int" where
  "compareFn a b = yearOf b - yearOf a"

text \<open>
  \<^verbatim>\<open>Array.prototype.sort\<close> with a comparator is a stable sort: with a consistent
  comparator its result is the one permutation that is ordered by the comparator and
  keeps elements that compare equal in their original order. Insertion from the right
  computes it: an element goes before the first element that it does not compare
  greater than.
\<close>

fun sort_insert :: "('a \<Rightarrow> 'a \<Rightarrow> int) \<Rightarrow> 'a \<Rightarrow> 'a list \<Rightarrow> 'a list" where
  "sort_insert cmp x [] = [x]"
| "sort_insert cmp x (y # ys) =
     (if cmp x y \<le> 0 then x # y # ys else y # sort_insert cmp x ys)"

definition array_sort :: "('a \<Rightarrow> 'a \<Rightarrow> int) \<Rightarrow> 'a list \<Rightarrow> 'a list" where
  "array_sort cmp xs = foldr (sort_insert cmp) xs []"

definition allMovies :: "snapshot_file \<Rightarrow> template_item list \<Rightarrow> movie list" where
  "allMovies snapshot items =
     (let cmsMovies = read_cmsMovies snapshot;
          localMovies = map localMovie items
      in array_sort compareFn (cmsMovies @ localMovies))"

text \<open>
  The order as the specification words it: descending by \<^verbatim>\<open>releaseYear\<close>, a missing
  \<^verbatim>\<open>releaseYear\<close> counting as 0.
\<close>

definition spec_year :: "movie \<Rightarrow> int" where
  "spec_year a = (case releaseYear a of None \<Rightarrow> 0 | Some y \<Rightarrow> y)"

fun descending :: "int list \<Rightarrow> bool" where
  "descending [] = True"
| "descending [y] = True"
| "descending (y # z # ys) = (z \<le> y \<and> descending (z # ys))"

section \<open>The client cache and renderer (js/live.js)\<close>

text \<open>
  The page: the cache \<^verbatim>\<open>liveMovieState\<close>, a map from titles to entries; the value of
  the \<^verbatim>\<open>data-movie-title\<close> attribute of the first element that carries it (\<open>None\<close>
  when there is no such element); the elements that \<^verbatim>\<open>getElementById\<close> finds, each with
  its text and the style properties the script sets; the ids of the elements whose
  fade-in callback is scheduled. The requests and console lines are those of the world.
  The cache object is used as a dictionary and is a map here (a title \<^verbatim>\<open>__proto__\<close>, which
  JavaScript does not keep as an own property, is outside the model). A call of
  \<^verbatim>\<open>loadLiveMovieData\<close> runs to completion before the next one starts.
\<close>

record cache_entry =
  data :: json
  timestamp :: nat
  cached :: bool

record element =
  textContent :: string
  fontStyle :: string
  color :: string
  opacity :: string
  transition :: string

record page = world +
  liveMovieState :: "string \<rightharpoonup> cache_entry"
  movieElement :: "string option"
  elements :: "string \<rightharpoonup> element"
  timeouts :: "string list"

definition saveToState :: "nat \<Rightarrow> string \<Rightarrow> json \<Rightarrow> page \<Rightarrow> page" where
  "saveToState now title dat p =
     console_log (''Saved \"'' @ title @ ''\" to state cache'')
       (p\<lparr>liveMovieState :=
            (liveMovieState p)(title \<mapsto> \<lparr>data = dat, timestamp = now, cached = True\<rparr>)\<rparr>)"

definition getFromState :: "string \<Rightarrow> page \<Rightarrow> jsval \<times> page" where
  "getFromState title p =
     (case liveMovieState p title of
        Some entry \<Rightarrow>
          (Some (data entry), console_log (''Using cached state for \"'' @ title @ ''\"'') p)
      | None \<Rightarrow> (Some JNull, p))"

text \<open>\<^verbatim>\<open>s.includes(sub)\<close> on strings.\<close>

fun starts_with :: "string \<Rightarrow> string \<Rightarrow> bool" where
  "starts_with s [] = True"
| "starts_with [] (c # sub) = False"
| "starts_with (d # s) (c # sub) = (d = c \<and> starts_with s sub)"

fun js_includes :: "string \<Rightarrow> string \<Rightarrow> bool" where
  "js_includes [] sub = (sub = [])"
| "js_includes (d # s) sub = (starts_with (d # s) sub \<or> js_includes s sub)"

text \<open>
  Assigning a value to \<^verbatim>\<open>textContent\<close>: \<^verbatim>\<open>null\<close> and \<^verbatim>\<open>undefined\<close> give the empty
  text, any other value its string.
\<close>

fun text_of :: "jsval \<Rightarrow> string" where
  "text_of None = []"
| "text_of (Some JNull) = []"
| "text_of (Some j) = ToString j"

definition live_ids :: "string list" where
  "live_ids = [''live-rating'', ''live-runtime'', ''live-genre'', ''live-actors'', ''live-plot'']"

text \<open>
  The two non-ASCII prefixes are the bytes of the string literals as the script file
  has them.
\<close>

definition loading_text :: string where
  "loading_text = [CHR 0xC3, CHR 0xA2, CHR 0xC2, CHR 0xB3] @ '' Loading...''"

definition rating_prefix :: string where
  "rating_prefix = [CHR 0xC3, CHR 0xA2, CHR 0xC2, CHR 0xAD] @ '' ''"

definition set_loading :: "string \<Rightarrow> page \<Rightarrow> page" where
  "set_loading i p =
     (case elements p i of
        None \<Rightarrow> p
      | Some el \<Rightarrow>
          p\<lparr>elements := (elements p)(i \<mapsto>
               el\<lparr>textContent := loading_text, fontStyle := ''italic'', color := ''#666''\<rparr>)\<rparr>)"

definition updateUILoading :: "page \<Rightarrow> page" where
  "updateUILoading p = foldl (\<lambda>q i. set_loading i q) p live_ids"

definition set_update :: "string \<times> jsval \<Rightarrow> page \<Rightarrow> page" where
  "set_update u p =
     (case elements p (fst u) of
        None \<Rightarrow> p
      | Some el \<Rightarrow>
          p\<lparr>elements := (elements p)(fst u \<mapsto>
               el\<lparr>textContent := text_of (snd u), fontStyle := ''normal'',
                  color := ''inherit'', opacity := ''0''\<rparr>),
            timeouts := timeouts p @ [fst u]\<rparr>)"

definition updates_of :: "json \<Rightarrow> (string \<times> jsval) list" where
  "updates_of dat =
     [(''live-rating'',
         if field dat ''imdbRating'' \<noteq> Some (JStr ''N/A'')
         then Some (JStr (rating_prefix @ template (field dat ''imdbRating'') @ ''/10''))
         else Some (JStr ''N/A'')),
      (''live-runtime'', field dat ''runtime''),
      (''live-genre'', field dat ''genre''),
      (''live-actors'', field dat ''actors''),
      (''live-plot'', field dat ''plot'')]"

definition updateUI :: "jsval \<Rightarrow> page \<Rightarrow> (js_error + unit) \<times> page" where
  "updateUI v p =
     (case non_null v ''imdbRating'' of
        Inl e \<Rightarrow> (Inl e, p)
      | Inr dat \<Rightarrow>
          (Inr (),
           console_log ''UI updated successfully''
             (foldl (\<lambda>q u. set_update u q) p (updates_of dat))))"

text \<open>The callback that \<^verbatim>\<open>updateUI\<close> schedules for an element, when it runs.\<close>

definition fade_in :: "string \<Rightarrow> page \<Rightarrow> page" where
  "fade_in i p =
     (case elements p i of
        None \<Rightarrow> p
      | Some el \<Rightarrow>
          p\<lparr>elements := (elements p)(i \<mapsto>
               el\<lparr>opacity := ''1'', transition := ''opacity 0.5s ease-in''\<rparr>)\<rparr>)"

definition set_na :: "string \<Rightarrow> page \<Rightarrow> page" where
  "set_na i p =
     (case elements p i of
        None \<Rightarrow> p
      | Some el \<Rightarrow>
          p\<lparr>elements := (elements p)(i \<mapsto>
               el\<lparr>textContent := ''N/A'', fontStyle := ''italic'', color := ''#999''\<rparr>)\<rparr>)"

definition error_text :: "string \<Rightarrow> string" where
  "error_text errorMessage =
     (if js_includes errorMessage ''not found'' \<or> js_includes errorMessage ''404'' then
        ''This movie is not available in OMDB database (primarily Hollywood movies). ''
          @ ''Try viewing a Hollywood movie like \"Inception\" or \"The Matrix\" to see live data.''
      else if js_includes errorMessage ''not available'' then
        ''Live data available only on Netlify deployment. ''
          @ ''This movie may also not be in OMDB database.''
      else ''Unable to load live data: '' @ errorMessage)"

definition set_plot_error :: "string \<Rightarrow> page \<Rightarrow> page" where
  "set_plot_error errorMessage p =
     (case elements p ''live-plot'' of
        None \<Rightarrow> p
      | Some el \<Rightarrow>
          p\<lparr>elements := (elements p)(''live-plot'' \<mapsto>
               el\<lparr>textContent := error_text errorMessage, color := ''#d32f2f''\<rparr>)\<rparr>)"

definition updateUIWithError :: "string \<Rightarrow> page \<Rightarrow> page" where
  "updateUIWithError errorMessage p =
     console_error ''UI updated with error state''
       (set_plot_error errorMessage (foldl (\<lambda>q i. set_na i q) p live_ids))"

definition functionUrl :: "string \<Rightarrow> string" where
  "functionUrl movieTitle = ''/.netlify/functions/movie?title='' @ encodeURIComponent movieTitle"

text \<open>
  What the branch for a response that is not ok throws. The error made from the error
  document is thrown inside the inner \<^verbatim>\<open>try\<close>, so the inner \<^verbatim>\<open>catch\<close> receives it as well
  as a failure to parse.
\<close>

definition error_of_response :: "response \<Rightarrow> page \<Rightarrow> js_error \<times> page" where
  "error_of_response r p =
     (if (case content_type r of
            None \<Rightarrow> False
          | Some contentType \<Rightarrow> contentType \<noteq> [] \<and> js_includes contentType ''text/html'')
      then (Error ''Serverless function not available. Deploy to Netlify to see live data.'', p)
      else
        let (e, p1) =
              (case json_body r of
                 Inl err \<Rightarrow> (err, p)
               | Inr errorData \<Rightarrow>
                   let p0 = console_error
                              (''Error response from function: '' @ ToString errorData) p
                   in (case non_null (Some errorData) ''message'' of
                         Inl err \<Rightarrow> (err, p0)
                       | Inr d \<Rightarrow>
                           (Error (template
                              (js_or (field d ''message'')
                                 (js_or (field d ''error'')
                                    (Some (JStr (''HTTP '' @ string_of_nat (status r))))))),
                            p0)))
        in if js_includes (message e) ''Serverless function'' then (e, p1)
           else (Error (''Failed to load data (HTTP '' @ string_of_nat (status r) @ '')''),
                 console_error (''Could not parse error response: '' @ message e) p1))"

text \<open>The body of the \<^verbatim>\<open>try\<close> block of \<^verbatim>\<open>loadLiveMovieData\<close>; \<open>now\<close> is \<^verbatim>\<open>Date.now()\<close>.\<close>

definition load_try :: "network \<Rightarrow> nat \<Rightarrow> page \<Rightarrow> (js_error + unit) \<times> page" where
  "load_try net now p =
     (case movieElement p of
        None \<Rightarrow> (Inr (), console_warn ''No element with data-movie-title attribute found'' p)
      | Some movieTitle \<Rightarrow>
          if movieTitle = [] then
            (Inr (),
             updateUIWithError ''Movie title not specified''
               (console_warn ''Movie title is empty'' p))
          else
            let p1 = console_log (''Loading live data for: '' @ movieTitle) p;
                (cachedData, p2) = getFromState movieTitle p1
            in if truthy cachedData then
                 updateUI cachedData (console_log ''Using cached data from state'' p2)
               else
                 let p3 = updateUILoading p2;
                     p4 = console_log (''Fetching from: '' @ functionUrl movieTitle) p3;
                     (outcome, p5) = fetch net (functionUrl movieTitle) p4
                 in case outcome of
                      Rejected e \<Rightarrow> (Inl e, p5)
                    | Resolved r \<Rightarrow>
                        if \<not> ok r then
                          (case error_of_response r p5 of (e, p6) \<Rightarrow> (Inl e, p6))
                        else
                          (case json_body r of
                             Inl e \<Rightarrow> (Inl e, p5)
                           | Inr fetched \<Rightarrow>
                               let p6 = console_log
                                          (''Successfully fetched live movie data: ''
                                             @ ToString fetched) p5;
                                   p7 = saveToState now movieTitle fetched p6
                               in updateUI (Some fetched) p7))"

definition loadLiveMovieData :: "network \<Rightarrow> nat \<Rightarrow> page \<Rightarrow> page" where
  "loadLiveMovieData net now p =
     (case load_try net now p of
        (Inr u, p') \<Rightarrow> p'
      | (Inl err, p') \<Rightarrow>
          updateUIWithError (message err)
            (console_error (''Error loading live movie data: '' @ message err) p'))"

text \<open>\<^verbatim>\<open>window.refreshMovieData\<close>: the deletion, then the load.\<close>

definition clear_current :: "page \<Rightarrow> page" where
  "clear_current p =
     (let p1 = console_log ''Manual refresh triggered'' p
      in case movieElement p1 of
           None \<Rightarrow> p1
         | Some title \<Rightarrow>
             console_log (''Cleared cache for \"'' @ title @ ''\"'')
               (p1\<lparr>liveMovieState := (liveMovieState p1)(title := None)\<rparr>))"

definition refreshMovieData :: "network \<Rightarrow> nat \<Rightarrow> page \<Rightarrow> page" where
  "refreshMovieData net now p = loadLiveMovieData net now (clear_current p)"

text \<open>The text shown in a display region, \<open>None\<close> when the page has no such element.\<close>

definition region_text :: "page \<Rightarrow> string \<Rightarrow> string option" where
  "region_text p i = map_option textContent (elements p i)"


text \<open>
  The part of the \<^verbatim>\<open>try\<close> block that follows a cache miss, from the loading state on,
  named for the proofs.
\<close>

definition after_miss :: "network \<Rightarrow> nat \<Rightarrow> string \<Rightarrow> page \<Rightarrow> (js_error + unit) \<times> page" where
  "after_miss net now t p2 =
     (let p5 = snd (fetch net (functionUrl t)
                 (console_log (''Fetching from: '' @ functionUrl t) (updateUILoading p2)))
      in case net (functionUrl t) of
           Rejected e \<Rightarrow> (Inl e, p5)
         | Resolved r \<Rightarrow>
             if \<not> ok r then (Inl (fst (error_of_response r p5)), snd (error_of_response r p5))
             else
               (case json_body r of
                  Inl e \<Rightarrow> (Inl e, p5)
                | Inr fetched \<Rightarrow>
                    updateUI (Some fetched)
                      (saveToState now t fetched
                         (console_log (''Successfully fetched live movie data: ''
                            @ ToString fetched) p5))))"

section \<open>What the claims speak of\<close>

text \<open>
  The degraded outcome of the snapshot step: the call returns, the one file written is the
  empty snapshot, and the console has the error line with the cause.
\<close>

definition degrades_to_empty :: "js_error \<Rightarrow> world \<Rightarrow> (js_error + unit) \<times> world \<Rightarrow> bool" where
  "degrades_to_empty cause w res =
     (fst res = Inr () \<and>
      files (snd res) = files w @ [(snapshot_path, JObj [(''movies'', JArr [])])] \<and>
      (Err, ''Error loading Contentful data: '' @ message cause) \<in> set (console (snd res)))"

text \<open>The records of a snapshot document.\<close>

definition snapshot_records :: "json \<Rightarrow> json list" where
  "snapshot_records doc = (case field doc ''movies'' of Some (JArr ms) \<Rightarrow> ms | _ \<Rightarrow> [])"

subsection \<open>Concrete inputs\<close>

definition ex_world :: world where
  "ex_world = \<lparr>requests = [], console = [], files = []\<rparr>"

definition ex_env :: env where
  "ex_env = \<lparr>NODE_ENV = None, CONTENTFUL_SPACE_ID = Some ''space1'',
              CONTENTFUL_ACCESS_TOKEN = Some ''token1''\<rparr>"

definition ex_env_dev :: env where
  "ex_env_dev = ex_env\<lparr>NODE_ENV := Some ''development''\<rparr>"

definition ex_env_no_token :: env where
  "ex_env_no_token = ex_env\<lparr>CONTENTFUL_ACCESS_TOKEN := Some []\<rparr>"

definition ex_event :: "string \<Rightarrow> event" where
  "ex_event title = \<lparr>queryStringParameters = Some [(''title'', title)]\<rparr>"

definition ex_event_no_query :: event where
  "ex_event_no_query = \<lparr>queryStringParameters = None\<rparr>"

definition json_response :: "nat \<Rightarrow> json \<Rightarrow> response" where
  "json_response code doc =
     \<lparr>status = code, content_type = Some ''application/json'', json_body = Inr doc\<rparr>"

definition ex_unreachable :: network where
  "ex_unreachable = (\<lambda>url. Rejected (TypeError ''fetch failed''))"

definition ex_omdb_not_found :: network where
  "ex_omdb_not_found =
     (\<lambda>url. Resolved (json_response 200
        (JObj [(''Response'', JStr ''False''), (''Error'', JStr ''Movie not found!'')])))"

text \<open>An upstream answer that reports a match and has neither \<^verbatim>\<open>Title\<close> nor \<^verbatim>\<open>Poster\<close>.\<close>

definition ex_omdb_untitled :: network where
  "ex_omdb_untitled =
     (\<lambda>url. Resolved (json_response 200
        (JObj [(''Response'', JStr ''True''), (''Year'', JStr ''1995'')])))"

definition ex_contentful_500 :: network where
  "ex_contentful_500 =
     (\<lambda>url. Resolved \<lparr>status = 500, content_type = Some ''text/plain'',
                       json_body = Inl (SyntaxError ''Unexpected token'')\<rparr>)"

text \<open>
  A content source answer with one entry whose poster list links the asset \<^verbatim>\<open>a1\<close>: once
  with the asset among the includes, once without it (a link that does not resolve).
\<close>

definition ex_entry :: json where
  "ex_entry =
     JObj [(''sys'', JObj [(''id'', JStr ''m1''), (''createdAt'', JStr ''2025-11-14''),
                           (''updatedAt'', JStr ''2025-11-15'')]),
           (''fields'', JObj [(''title'', JStr ''Heat''), (''releaseYear'', JNum 1995),
                              (''poster'', JArr [JObj [(''sys'', JObj [(''id'', JStr ''a1'')])]])])]"

definition ex_resolved :: json where
  "ex_resolved =
     JObj [(''items'', JArr [ex_entry]),
           (''includes'', JObj [(''Asset'', JArr
              [JObj [(''sys'', JObj [(''id'', JStr ''a1'')]),
                     (''fields'', JObj [(''file'', JObj [(''url'', JStr ''//images.example/heat.jpg'')])])]])])]"

definition ex_unresolved :: json where
  "ex_unresolved = JObj [(''items'', JArr [ex_entry])]"

definition ex_contentful :: "json \<Rightarrow> network" where
  "ex_contentful doc = (\<lambda>url. Resolved (json_response 200 doc))"

definition ex_snapshot :: snapshot_file where
  "ex_snapshot = Document (Some
     [\<lparr>movie_id = ''cms-2001'', releaseYear = Some 2001, data_releaseYear = None,
       source = Some ''contentful''\<rparr>,
      \<lparr>movie_id = ''cms-2020'', releaseYear = Some 2020, data_releaseYear = None,
       source = Some ''contentful''\<rparr>])"

definition ex_items :: "template_item list" where
  "ex_items =
     [\<lparr>fileSlug = ''local-2010'', item_releaseYear = Some 2010, item_data_releaseYear = None,
       item_source = None\<rparr>]"

definition ex_nested_items :: "template_item list" where
  "ex_nested_items =
     [\<lparr>fileSlug = ''local-nested'', item_releaseYear = None, item_data_releaseYear = Some 2050,
       item_source = None\<rparr>]"

definition ex_element :: element where
  "ex_element = \<lparr>textContent = ''Loading...'', fontStyle = ''normal'', color = ''inherit'',
                  opacity = ''1'', transition = []\<rparr>"

definition ex_page :: page where
  "ex_page =
     \<lparr>requests = [], console = [], files = [],
      liveMovieState = Map.empty,
      movieElement = Some ''Inception'',
      elements = [''live-rating'' \<mapsto> ex_element, ''live-plot'' \<mapsto> ex_element],
      timeouts = []\<rparr>"

definition ex_live :: json where
  "ex_live =
     JObj [(''title'', JStr ''Inception''), (''imdbRating'', JStr ''8.8''),
           (''runtime'', JStr ''148 min''), (''genre'', JStr ''Action, Sci-Fi''),
           (''actors'', JStr ''Leonardo DiCaprio''), (''plot'', JStr ''A thief.''),
           (''poster'', JNull), (''year'', JStr ''2010''),
           (''director'', JStr ''Christopher Nolan'')]"

definition ex_function :: network where
  "ex_function = (\<lambda>url. Resolved (json_response 200 ex_live))"

definition ex_page_cached :: page where
  "ex_page_cached =
     ex_page\<lparr>liveMovieState :=
       [''Inception'' \<mapsto> \<lparr>data = ex_live, timestamp = 1, cached = True\<rparr>,
        ''Heat'' \<mapsto> \<lparr>data = JObj [(''plot'', JStr ''A heist.'')], timestamp = 2, cached = True\<rparr>]\<rparr>"

definition ex_page_empty_title :: page where
  "ex_page_empty_title = ex_page\<lparr>movieElement := Some []\<rparr>"

definition ex_page_no_title :: page where
  "ex_page_no_title = ex_page\<lparr>movieElement := None\<rparr>"

section \<open>The proxy: proofs\<close>

lemma js_or_Some: "js_or v (Some d) = Some (or_else v d)"
  by (cases v) (auto simp: js_or_def or_else_def)

lemma handler_missing_title:
  "title_param ev = None \<or> title_param ev = Some [] \<Longrightarrow> handler e net ev w = (missing_title, w)"
  by (auto simp: handler_def handler_try_def)

lemma handler_try_parsed:
  assumes "title_param ev = Some t" "t \<noteq> []" "net (apiUrl t) = Resolved r" "ok r"
    "json_body r = Inr dat" "dat \<noteq> JNull"
  shows "fst (handler_try net ev w) =
           Inr (if field dat ''Response'' = Some (JStr ''False'') then not_found dat
                else found (movieData dat))"
  using assms by (cases dat) (simp_all add: handler_try_def fetch_def Let_def get_prop_def)

lemma handler_of_try:
  "fst (handler e net ev w) =
     (case fst (handler_try net ev w) of Inr r \<Rightarrow> r | Inl err \<Rightarrow> handler_catch e err)"
  by (simp add: handler_def split: prod.splits sum.splits)

text \<open>
  Claim C5. A request without a title (no query-parameter object, or none with the key
  \<^verbatim>\<open>title\<close>; an empty title is treated alike) is answered with status 400 and a body with
  an \<^verbatim>\<open>error\<close> property, and no request is made upstream. A request whose title the
  upstream answers with a 2xx response and \<^verbatim>\<open>Response\<close> equal to \<^verbatim>\<open>"False"\<close> is
  answered with status 404 and the body \<^verbatim>\<open>{error: "Movie not found", message}\<close>, the
  message being the upstream \<^verbatim>\<open>Error\<close> when it has one.
\<close>

theorem proxy_missing_title_and_not_found:
  "(title_param ev = None \<or> title_param ev = Some [] \<longrightarrow>
      statusCode (fst (handler e net ev w)) = 400 \<and>
      body (fst (handler e net ev w)) =
        JObj [(''error'', JStr ''Missing required parameter: title''),
              (''message'', JStr ''Please provide a movie title in the query string'')] \<and>
      requests (snd (handler e net ev w)) = requests w)
   \<and> (title_param ev = Some t \<and> t \<noteq> [] \<and> net (apiUrl t) = Resolved r \<and> ok r \<and>
        json_body r = Inr dat \<and> field dat ''Response'' = Some (JStr ''False'') \<longrightarrow>
      statusCode (fst (handler e net ev w)) = 404 \<and>
      body (fst (handler e net ev w)) =
        JObj [(''error'', JStr ''Movie not found''),
              (''message'', or_else (field dat ''Error'') (JStr ''No movie found with that title''))])"
proof (intro conjI impI)
  assume a: "title_param ev = None \<or> title_param ev = Some []"
  show "statusCode (fst (handler e net ev w)) = 400"
    using handler_missing_title [OF a] by (simp add: missing_title_def)
  show "body (fst (handler e net ev w)) =
        JObj [(''error'', JStr ''Missing required parameter: title''),
              (''message'', JStr ''Please provide a movie title in the query string'')]"
    using handler_missing_title [OF a] by (simp add: missing_title_def JSON_stringify_def List.map_filter_simps)
  show "requests (snd (handler e net ev w)) = requests w"
    using handler_missing_title [OF a] by simp
next
  assume b: "title_param ev = Some t \<and> t \<noteq> [] \<and> net (apiUrl t) = Resolved r \<and> ok r \<and>
        json_body r = Inr dat \<and> field dat ''Response'' = Some (JStr ''False'')"
  then have nn: "dat \<noteq> JNull" by auto
  from b nn have t: "fst (handler_try net ev w) = Inr (not_found dat)"
    using handler_try_parsed [of ev t net r dat w] by simp
  show "statusCode (fst (handler e net ev w)) = 404"
    by (simp add: handler_of_try t not_found_def)
  show "body (fst (handler e net ev w)) =
        JObj [(''error'', JStr ''Movie not found''),
              (''message'', or_else (field dat ''Error'') (JStr ''No movie found with that title''))]"
    by (simp add: handler_of_try t not_found_def JSON_stringify_def List.map_filter_simps js_or_Some)
qed

theorem proxy_missing_title_and_not_found_witness:
  "title_param ex_event_no_query = None \<and>
   statusCode (fst (handler ex_env ex_unreachable ex_event_no_query ex_world)) = 400 \<and>
   has_key (body (fst (handler ex_env ex_unreachable ex_event_no_query ex_world))) ''error'' \<and>
   requests (snd (handler ex_env ex_unreachable ex_event_no_query ex_world)) = [] \<and>
   title_param (ex_event ''ThisMovieDoesNotExist12345'') = Some ''ThisMovieDoesNotExist12345'' \<and>
   statusCode (fst (handler ex_env ex_omdb_not_found
      (ex_event ''ThisMovieDoesNotExist12345'') ex_world)) = 404 \<and>
   body (fst (handler ex_env ex_omdb_not_found
      (ex_event ''ThisMovieDoesNotExist12345'') ex_world)) =
     JObj [(''error'', JStr ''Movie not found''), (''message'', JStr ''Movie not found!'')]"
  using proxy_missing_title_and_not_found
      [where ev = ex_event_no_query and e = ex_env and net = ex_unreachable and w = ex_world]
    proxy_missing_title_and_not_found
      [where ev = "ex_event ''ThisMovieDoesNotExist12345''" and e = ex_env
         and net = ex_omdb_not_found and w = ex_world and t = "''ThisMovieDoesNotExist12345''"
         and r = "json_response 200
                    (JObj [(''Response'', JStr ''False''), (''Error'', JStr ''Movie not found!'')])"
         and dat = "JObj [(''Response'', JStr ''False''), (''Error'', JStr ''Movie not found!'')]"]
  by (simp add: title_param_def ex_event_no_query_def ex_event_def ex_omdb_not_found_def
      json_response_def ok_def ex_world_def or_else_def has_key_def keys_of_def)

text \<open>
  Claim C8. When the \<^verbatim>\<open>try\<close> block of the handler throws, the response has status 500
  with the generic \<^verbatim>\<open>error\<close> and \<^verbatim>\<open>message\<close>; the body has a \<^verbatim>\<open>details\<close> property,
  holding the message of the exception, exactly when \<^verbatim>\<open>NODE_ENV\<close> is
  \<^verbatim>\<open>development\<close>. Without the flag the body is the same for every exception.
\<close>

theorem proxy_internal_error:
  assumes "fst (handler_try net ev w) = Inl err"
  shows "statusCode (fst (handler e net ev w)) = 500 \<and>
         body (fst (handler e net ev w)) =
           JObj ([(''error'', JStr ''Internal server error''),
                  (''message'', JStr ''Failed to fetch movie data. Please try again later.'')]
                 @ (if NODE_ENV e = Some ''development'' then [(''details'', JStr (message err))]
                    else [])) \<and>
         (has_key (body (fst (handler e net ev w))) ''details'' \<longleftrightarrow>
            NODE_ENV e = Some ''development'')"
  using assms
  by (simp add: handler_of_try handler_catch_def JSON_stringify_def List.map_filter_simps has_key_def keys_of_def)

theorem proxy_internal_error_witness:
  "fst (handler_try ex_unreachable (ex_event ''Heat'') ex_world) = Inl (TypeError ''fetch failed'') \<and>
   statusCode (fst (handler ex_env ex_unreachable (ex_event ''Heat'') ex_world)) = 500 \<and>
   body (fst (handler ex_env ex_unreachable (ex_event ''Heat'') ex_world)) =
     JObj [(''error'', JStr ''Internal server error''),
           (''message'', JStr ''Failed to fetch movie data. Please try again later.'')] \<and>
   body (fst (handler ex_env_dev ex_unreachable (ex_event ''Heat'') ex_world)) =
     JObj [(''error'', JStr ''Internal server error''),
           (''message'', JStr ''Failed to fetch movie data. Please try again later.''),
           (''details'', JStr ''fetch failed'')]"
proof -
  have t: "fst (handler_try ex_unreachable (ex_event ''Heat'') ex_world) = Inl (TypeError ''fetch failed'')"
    by (simp add: handler_try_def title_param_def ex_event_def ex_unreachable_def fetch_def Let_def)
  show ?thesis
    using t proxy_internal_error [OF t, of ex_env] proxy_internal_error [OF t, of ex_env_dev]
    by (simp add: ex_env_def ex_env_dev_def)
qed

text \<open>
  Claim C4. The claim asks for a body with all nine properties, every property that is
  absent upstream being \<^verbatim>\<open>"N/A"\<close>. The handler defaults seven of them;
  \<^verbatim>\<open>title\<close> is \<^verbatim>\<open>data.Title\<close> as it is, and \<^verbatim>\<open>poster\<close> is \<^verbatim>\<open>data.Poster\<close> unless that
  is \<^verbatim>\<open>"N/A"\<close>. For the upstream answer \<^verbatim>\<open>{"Response": "True", "Year": "1995"}\<close> the
  response has status 200 and a body of seven properties, without \<^verbatim>\<open>title\<close> and
  \<^verbatim>\<open>poster\<close>.
\<close>

theorem proxy_absent_title_not_defaulted:
  "statusCode (fst (handler ex_env ex_omdb_untitled (ex_event ''Heat'') ex_world)) = 200 \<and>
   body (fst (handler ex_env ex_omdb_untitled (ex_event ''Heat'') ex_world)) =
     JObj [(''imdbRating'', JStr ''N/A''), (''runtime'', JStr ''N/A''), (''genre'', JStr ''N/A''),
           (''actors'', JStr ''N/A''), (''plot'', JStr ''N/A''), (''year'', JStr ''1995''),
           (''director'', JStr ''N/A'')] \<and>
   \<not> has_key (body (fst (handler ex_env ex_omdb_untitled (ex_event ''Heat'') ex_world))) ''title'' \<and>
   \<not> has_key (body (fst (handler ex_env ex_omdb_untitled (ex_event ''Heat'') ex_world))) ''poster''"
  by (simp add: handler_def handler_try_def title_param_def ex_event_def ex_omdb_untitled_def
      json_response_def ok_def fetch_def Let_def get_prop_def found_def movieData_def js_or_def
      JSON_stringify_def List.map_filter_simps has_key_def keys_of_def)

text \<open>
  What the handler does default: with \<^verbatim>\<open>Title\<close> and \<^verbatim>\<open>Poster\<close> present the body has
  the nine properties, and \<^verbatim>\<open>poster\<close> is \<^verbatim>\<open>null\<close> when \<^verbatim>\<open>Poster\<close> is \<^verbatim>\<open>"N/A"\<close>.
\<close>

lemma movieData_keys:
  assumes "field dat ''Title'' \<noteq> None" "field dat ''Poster'' \<noteq> None"
  shows "keys_of (JSON_stringify (movieData dat)) =
           [''title'', ''imdbRating'', ''runtime'', ''genre'', ''actors'', ''plot'', ''poster'',
            ''year'', ''director'']"
  using assms
  by (auto simp: movieData_def JSON_stringify_def List.map_filter_simps keys_of_def js_or_Some)

lemma movieData_poster_null:
  "field dat ''Poster'' = Some (JStr ''N/A'') \<Longrightarrow>
     field (JSON_stringify (movieData dat)) ''poster'' = Some JNull"
  by (cases "field dat ''Title''")
     (simp_all add: movieData_def JSON_stringify_def List.map_filter_simps js_or_Some)

section \<open>The snapshot step: proofs\<close>

lemma present_iff: "present v \<longleftrightarrow> v \<noteq> None \<and> v \<noteq> Some []"
  by (cases v) (simp_all add: present_def)

lemma empty_snapshot_doc: "empty_snapshot = JObj [(''movies'', JArr [])]"
  by (simp add: empty_snapshot_def JSON_stringify_def List.map_filter_simps)

text \<open>
  Claim C2. When the space identifier or the access credential is missing or empty, the
  snapshot step writes the empty snapshot \<^verbatim>\<open>{"movies": []}\<close> to the snapshot file, that
  being its only write, makes no request, and returns.
\<close>

theorem snapshot_without_credentials:
  assumes "CONTENTFUL_SPACE_ID e = None \<or> CONTENTFUL_SPACE_ID e = Some [] \<or>
           CONTENTFUL_ACCESS_TOKEN e = None \<or> CONTENTFUL_ACCESS_TOKEN e = Some []"
  shows "files (snd (fetchContentfulData e net w)) =
           files w @ [(snapshot_path, JObj [(''movies'', JArr [])])] \<and>
         requests (snd (fetchContentfulData e net w)) = requests w \<and>
         fst (fetchContentfulData e net w) = Inr ()"
proof -
  from assms have "\<not> present (CONTENTFUL_SPACE_ID e) \<or> \<not> present (CONTENTFUL_ACCESS_TOKEN e)"
    by (auto simp: present_iff)
  then show ?thesis
    by (auto simp: fetchContentfulData_def Let_def writeFileSync_def console_warn_def
        console_log_def empty_snapshot_doc)
qed

theorem snapshot_without_credentials_witness:
  "CONTENTFUL_ACCESS_TOKEN ex_env_no_token = Some [] \<and>
   files (snd (fetchContentfulData ex_env_no_token ex_unreachable ex_world)) =
     [(''_data/cmsData.json'', JObj [(''movies'', JArr [])])] \<and>
   requests (snd (fetchContentfulData ex_env_no_token ex_unreachable ex_world)) = []"
  using snapshot_without_credentials [of ex_env_no_token ex_unreachable ex_world]
  by (simp add: ex_env_no_token_def ex_env_def ex_world_def snapshot_path_def)

lemma fetch_try_failure:
  assumes "net (contentful_url (CONTENTFUL_SPACE_ID e) (CONTENTFUL_ACCESS_TOKEN e)) = out"
  shows "(out = Rejected err \<longrightarrow> fst (fetch_try e net w) = Inl err)"
    "(out = Resolved r \<and> \<not> ok r \<longrightarrow>
        fst (fetch_try e net w) = Inl (Error (''Contentful API Error: '' @ string_of_nat (status r))))"
    "(out = Resolved r \<and> ok r \<and> json_body r = Inl err \<longrightarrow> fst (fetch_try e net w) = Inl err)"
    "(out = Resolved r \<and> ok r \<and> json_body r = Inr dat \<and> convert_movies dat = Inl err \<longrightarrow>
        fst (fetch_try e net w) = Inl err)"
  using assms by (auto simp: fetch_try_def fetch_def Let_def)

lemma fetch_try_files: "fst (fetch_try e net w) = Inl err \<Longrightarrow> files (snd (fetch_try e net w)) = files w"
  by (auto simp: fetch_try_def fetch_def Let_def console_log_def split: fetch_outcome.splits if_splits sum.splits)

lemma fetch_try_success:
  assumes "net (contentful_url (CONTENTFUL_SPACE_ID e) (CONTENTFUL_ACCESS_TOKEN e)) = Resolved r"
    "ok r" "json_body r = Inr dat" "convert_movies dat = Inr movies"
  shows "fst (fetch_try e net w) = Inr ()"
    "files (snd (fetch_try e net w)) = files w @ [(snapshot_path, JObj [(''movies'', JArr movies)])]"
  using assms
  by (auto simp: fetch_try_def fetch_def Let_def console_log_def writeFileSync_def
      JSON_stringify_def List.map_filter_simps)

lemma fetchContentfulData_caught:
  assumes "present (CONTENTFUL_SPACE_ID e)" "present (CONTENTFUL_ACCESS_TOKEN e)"
    "fst (fetch_try e net (console_log ''Checking Contentful credentials...'' w)) = Inl err"
  shows "degrades_to_empty err w (fetchContentfulData e net w)"
proof -
  obtain w' where t: "fetch_try e net (console_log ''Checking Contentful credentials...'' w) = (Inl err, w')"
    using assms(3) by (cases "fetch_try e net (console_log ''Checking Contentful credentials...'' w)") auto
  have f: "files w' = files w"
    using fetch_try_files [of e net "console_log ''Checking Contentful credentials...'' w" err] t
    by (simp add: console_log_def)
  show ?thesis
    using assms(1,2) t f
    by (simp add: degrades_to_empty_def fetchContentfulData_def Let_def writeFileSync_def
        console_warn_def console_error_def empty_snapshot_doc)
qed

lemma fetchContentfulData_passed:
  assumes "present (CONTENTFUL_SPACE_ID e)" "present (CONTENTFUL_ACCESS_TOKEN e)"
    "fst (fetch_try e net (console_log ''Checking Contentful credentials...'' w)) = Inr u"
  shows "fetchContentfulData e net w =
           (Inr (), snd (fetch_try e net (console_log ''Checking Contentful credentials...'' w)))"
  using assms
  by (cases "fetch_try e net (console_log ''Checking Contentful credentials...'' w)")
     (simp add: fetchContentfulData_def Let_def)

text \<open>
  Claim C3. With both credentials present: when the request is rejected, or answered with
  a status that is not 2xx, or the body does not parse, or the parsed document cannot be
  converted, the step logs the cause, writes the empty snapshot as its only write and
  returns; when the document converts to the list \<open>movies\<close>, it writes
  \<^verbatim>\<open>{"movies": movies}\<close> and returns.
\<close>

theorem snapshot_with_credentials:
  assumes "CONTENTFUL_SPACE_ID e = Some space" "space \<noteq> []"
    "CONTENTFUL_ACCESS_TOKEN e = Some token" "token \<noteq> []"
    "net (contentful_url (Some space) (Some token)) = out"
  shows "(out = Rejected err \<longrightarrow> degrades_to_empty err w (fetchContentfulData e net w))
    \<and> (out = Resolved r \<and> \<not> ok r \<longrightarrow>
         degrades_to_empty (Error (''Contentful API Error: '' @ string_of_nat (status r))) w
           (fetchContentfulData e net w))
    \<and> (out = Resolved r \<and> ok r \<and> json_body r = Inl err \<longrightarrow>
         degrades_to_empty err w (fetchContentfulData e net w))
    \<and> (out = Resolved r \<and> ok r \<and> json_body r = Inr dat \<and> convert_movies dat = Inl err \<longrightarrow>
         degrades_to_empty err w (fetchContentfulData e net w))
    \<and> (out = Resolved r \<and> ok r \<and> json_body r = Inr dat \<and> convert_movies dat = Inr movies \<longrightarrow>
         fst (fetchContentfulData e net w) = Inr () \<and>
         files (snd (fetchContentfulData e net w)) =
           files w @ [(snapshot_path, JObj [(''movies'', JArr movies)])])"
proof -
  have p: "present (CONTENTFUL_SPACE_ID e)" "present (CONTENTFUL_ACCESS_TOKEN e)"
    using assms by (simp_all add: present_iff)
  have n: "net (contentful_url (CONTENTFUL_SPACE_ID e) (CONTENTFUL_ACCESS_TOKEN e)) = out"
    using assms by simp
  note fl = fetch_try_failure [where net = net and e = e and out = out
      and w = "console_log ''Checking Contentful credentials...'' w", OF n]
  note cg = fetchContentfulData_caught [OF p]
  have 1: "out = Rejected err \<longrightarrow> degrades_to_empty err w (fetchContentfulData e net w)"
    using fl(1) cg by blast
  have 2: "out = Resolved r \<and> \<not> ok r \<longrightarrow>
         degrades_to_empty (Error (''Contentful API Error: '' @ string_of_nat (status r))) w
           (fetchContentfulData e net w)"
    using fl(2) cg by blast
  have 3: "out = Resolved r \<and> ok r \<and> json_body r = Inl err \<longrightarrow>
         degrades_to_empty err w (fetchContentfulData e net w)"
    using fl(3) cg by blast
  have 4: "out = Resolved r \<and> ok r \<and> json_body r = Inr dat \<and> convert_movies dat = Inl err \<longrightarrow>
         degrades_to_empty err w (fetchContentfulData e net w)"
    using fl(4) cg by blast
  have 5: "out = Resolved r \<and> ok r \<and> json_body r = Inr dat \<and> convert_movies dat = Inr movies \<longrightarrow>
         fst (fetchContentfulData e net w) = Inr () \<and>
         files (snd (fetchContentfulData e net w)) =
           files w @ [(snapshot_path, JObj [(''movies'', JArr movies)])]"
  proof
    assume a: "out = Resolved r \<and> ok r \<and> json_body r = Inr dat \<and> convert_movies dat = Inr movies"
    have s: "fst (fetch_try e net (console_log ''Checking Contentful credentials...'' w)) = Inr ()"
      "files (snd (fetch_try e net (console_log ''Checking Contentful credentials...'' w))) =
         files (console_log ''Checking Contentful credentials...'' w)
           @ [(snapshot_path, JObj [(''movies'', JArr movies)])]"
      using fetch_try_success [of net e r dat movies] n a by simp_all
    show "fst (fetchContentfulData e net w) = Inr () \<and>
         files (snd (fetchContentfulData e net w)) =
           files w @ [(snapshot_path, JObj [(''movies'', JArr movies)])]"
      using fetchContentfulData_passed [OF p s(1)] s(2) by (simp add: console_log_def)
  qed
  from 1 2 3 4 5 show ?thesis by blast
qed

lemma convert_movies_resolved:
  "convert_movies ex_resolved =
     Inr [JObj [(''id'', JStr ''m1''), (''title'', JStr ''Heat''), (''director'', JStr ''Unknown''),
                (''releaseYear'', JNum 1995), (''genre'', JStr ''Unknown''), (''rating'', JNum 0),
                (''description'', JStr []),
                (''poster'', JStr ''https://images.example/heat.jpg''),
                (''source'', JStr ''contentful''), (''createdAt'', JStr ''2025-11-14''),
                (''updatedAt'', JStr ''2025-11-15'')]]"
  by (simp add: convert_movies_def extract_assets_def asset_step_def movie_of_def posterId_of_def
      ex_resolved_def ex_entry_def get_prop_def js_or_def template_def Let_def
      JSON_stringify_def List.map_filter_simps)

theorem snapshot_with_credentials_witness:
  "degrades_to_empty (Error ''Contentful API Error: 500'') ex_world
     (fetchContentfulData ex_env ex_contentful_500 ex_world) \<and>
   files (snd (fetchContentfulData ex_env (ex_contentful ex_resolved) ex_world)) =
     [(''_data/cmsData.json'',
       JObj [(''movies'', JArr
         [JObj [(''id'', JStr ''m1''), (''title'', JStr ''Heat''), (''director'', JStr ''Unknown''),
                (''releaseYear'', JNum 1995), (''genre'', JStr ''Unknown''), (''rating'', JNum 0),
                (''description'', JStr []),
                (''poster'', JStr ''https://images.example/heat.jpg''),
                (''source'', JStr ''contentful''), (''createdAt'', JStr ''2025-11-14''),
                (''updatedAt'', JStr ''2025-11-15'')]])])]"
proof -
  have s: "string_of_nat 500 = ''500''"
    by (simp add: string_of_nat.simps)
  show ?thesis
    using snapshot_with_credentials
        [where e = ex_env and space = "''space1''" and token = "''token1''"
           and net = ex_contentful_500
           and out = "ex_contentful_500 (contentful_url (Some ''space1'') (Some ''token1''))"
           and r = "\<lparr>status = 500, content_type = Some ''text/plain'',
                       json_body = Inl (SyntaxError ''Unexpected token'')\<rparr>"
           and w = ex_world]
      snapshot_with_credentials
        [where e = ex_env and space = "''space1''" and token = "''token1''"
           and net = "ex_contentful ex_resolved"
           and out = "ex_contentful ex_resolved (contentful_url (Some ''space1'') (Some ''token1''))"
           and r = "json_response 200 ex_resolved" and dat = ex_resolved and w = ex_world]
      convert_movies_resolved s
    by (simp add: ex_env_def ex_contentful_500_def ex_contentful_def json_response_def ok_def
        ex_world_def snapshot_path_def)
qed

text \<open>
  Claim C6. The claim asks that every record has a poster URL: the URL of the first linked
  asset, or the placeholder. The placeholder is used only when the poster list is empty or
  absent; when the first linked asset is not in the asset table the value is
  \<^verbatim>\<open>undefined\<close> and the record is written without a \<^verbatim>\<open>poster\<close>. Here the entry
  links the asset \<^verbatim>\<open>a1\<close> and the answer has no includes.
\<close>

theorem snapshot_unresolved_poster:
  "files (snd (fetchContentfulData ex_env (ex_contentful ex_unresolved) ex_world)) =
     [(snapshot_path,
       JObj [(''movies'', JArr
         [JObj [(''id'', JStr ''m1''), (''title'', JStr ''Heat''), (''director'', JStr ''Unknown''),
                (''releaseYear'', JNum 1995), (''genre'', JStr ''Unknown''), (''rating'', JNum 0),
                (''description'', JStr []), (''source'', JStr ''contentful''),
                (''createdAt'', JStr ''2025-11-14''), (''updatedAt'', JStr ''2025-11-15'')]])])]"
  by (simp add: fetchContentfulData_def fetch_try_def fetch_def present_def ex_env_def
      ex_contentful_def json_response_def ok_def ex_world_def Let_def
      console_log_def writeFileSync_def
      convert_movies_def extract_assets_def movie_of_def posterId_of_def
      ex_unresolved_def ex_entry_def get_prop_def js_or_def template_def
      JSON_stringify_def List.map_filter_simps)

theorem snapshot_unresolved_poster_witness:
  "present (CONTENTFUL_SPACE_ID ex_env) \<and> present (CONTENTFUL_ACCESS_TOKEN ex_env) \<and>
   ok (json_response 200 ex_unresolved) \<and>
   map fst (files (snd (fetchContentfulData ex_env (ex_contentful ex_unresolved) ex_world))) =
     [''_data/cmsData.json''] \<and>
   map (\<lambda>doc. map (\<lambda>m. (field m ''title'', has_key m ''poster'')) (snapshot_records doc))
     (map snd (files (snd (fetchContentfulData ex_env (ex_contentful ex_unresolved) ex_world)))) =
     [[(Some (JStr ''Heat''), False)]]"
  using snapshot_unresolved_poster
  by (simp add: present_def ex_env_def json_response_def ok_def snapshot_path_def
      snapshot_records_def has_key_def keys_of_def)

text \<open>What the conversion does guarantee for every record it produces.\<close>

lemma movie_of_defaults:
  assumes "movie_of assets item = Inr m"
  shows "truthy (field m ''title'')"
    and "field m ''source'' = Some (JStr ''contentful'')"
    and "field m ''releaseYear'' = Some (or_else (field m ''releaseYear'') (JNum 0))"
proof -
  obtain fv where 1: "get_prop (Some item) ''fields'' = Inr fv"
    using assms by (cases "get_prop (Some item) ''fields''") (simp_all add: movie_of_def)
  obtain item_fields where 2: "non_null fv ''poster'' = Inr item_fields"
    using assms 1 by (cases "non_null fv ''poster''") (simp_all add: movie_of_def)
  obtain posterId where 3: "posterId_of (field item_fields ''poster'') = Inr posterId"
    using assms 1 2
    by (cases "posterId_of (field item_fields ''poster'')") (simp_all add: movie_of_def)
  obtain sys where 4: "non_null (field item ''sys'') ''id'' = Inr sys"
    using assms 1 2 3
    by (cases "non_null (field item ''sys'') ''id''") (simp_all add: movie_of_def)
  define rest where "rest =
     [(''genre'', js_or (field item_fields ''genre'') (Some (JStr ''Unknown''))),
      (''rating'', js_or (field item_fields ''rating'') (Some (JNum 0))),
      (''description'', js_or (field item_fields ''description'') (Some (JStr []))),
      (''poster'',
         if truthy posterId then map_option JStr (assets (template posterId))
         else Some (JStr placeholder)),
      (''source'', Some (JStr ''contentful'')),
      (''createdAt'', field sys ''createdAt''),
      (''updatedAt'', field sys ''updatedAt'')]"
  define title where "title = or_else (field item_fields ''title'') (JStr ''Untitled'')"
  define director where "director = or_else (field item_fields ''director'') (JStr ''Unknown'')"
  define year where "year = or_else (field item_fields ''releaseYear'') (JNum 0)"
  have m: "m = JSON_stringify
       ([(''id'', field sys ''id''), (''title'', Some title), (''director'', Some director),
         (''releaseYear'', Some year)] @ rest)"
    using assms 1 2 3 4
    by (simp add: movie_of_def js_or_Some rest_def title_def director_def year_def)
  have tt: "truthy (Some title)"
    unfolding title_def by (cases "field item_fields ''title''") (auto simp: or_else_def)
  have yy: "or_else (Some year) (JNum 0) = year"
    unfolding year_def
    by (cases "field item_fields ''releaseYear''") (auto simp: or_else_def)
  have src: "map_of (List.map_filter (\<lambda>(k, v). map_option (Pair k) v) rest) ''source'' =
               Some (JStr ''contentful'')"
    unfolding rest_def js_or_Some
    by (cases "field sys ''createdAt''"; cases "field sys ''updatedAt''";
        cases "if truthy posterId then map_option JStr (assets (template posterId))
               else Some (JStr placeholder)";
        simp add: List.map_filter_simps)
  have f: "field m ''title'' = Some title" "field m ''releaseYear'' = Some year"
    "field m ''source'' = Some (JStr ''contentful'')"
    unfolding m using src
    by (cases "field sys ''id''"; simp add: JSON_stringify_def List.map_filter_simps)+
  show "truthy (field m ''title'')" using f(1) tt by simp
  show "field m ''source'' = Some (JStr ''contentful'')" by (rule f(3))
  show "field m ''releaseYear'' = Some (or_else (field m ''releaseYear'') (JNum 0))"
    using f(2) yy by simp
qed

section \<open>The collection merger: proofs\<close>

lemma sort_insert_compareFn:
  "sort_insert compareFn x xs = insort_key (\<lambda>m. - yearOf m) x xs"
  by (induction xs) (simp_all add: compareFn_def)

lemma array_sort_compareFn: "array_sort compareFn xs = sort_key (\<lambda>m. - yearOf m) xs"
proof -
  have "sort_insert compareFn = insort_key (\<lambda>m. - yearOf m)"
    by (intro ext) (rule sort_insert_compareFn)
  then show ?thesis by (simp add: array_sort_def sort_key_def)
qed

lemma descending_sorted: "descending ys \<longleftrightarrow> sorted (map uminus ys)"
  by (induction ys rule: descending.induct) (auto intro: order_trans)

lemma descending_array_sort: "descending (map yearOf (array_sort compareFn xs))"
proof -
  have "sorted (map (\<lambda>m. - yearOf m) (sort_key (\<lambda>m. - yearOf m) xs))"
    by (rule sorted_sort_key)
  then show ?thesis
    by (simp add: descending_sorted array_sort_compareFn comp_def)
qed

lemma stable_array_sort:
  "filter (\<lambda>m. yearOf m = k) (array_sort compareFn xs) = filter (\<lambda>m. yearOf m = k) xs"
proof -
  have "filter (\<lambda>m. - yearOf m = - k) (sort_key (\<lambda>m. - yearOf m) xs)
          = filter (\<lambda>m. - yearOf m = - k) xs"
    by (rule sort_key_stable)
  then show ?thesis by (simp add: array_sort_compareFn)
qed

lemma mset_array_sort: "mset (array_sort compareFn xs) = mset xs"
  by (simp add: array_sort_compareFn)

text \<open>
  Claim C1, as amended. The collection is a permutation of the remote records followed by
  the local ones, in descending order of the year the comparator computes,
  \<^verbatim>\<open>releaseYear || data?.releaseYear || 0\<close>; records with the same year keep the order of
  the concatenation (remote first, then local). For a record without a nested
  \<^verbatim>\<open>data.releaseYear\<close> that year is \<^verbatim>\<open>releaseYear\<close>, a missing one counting as 0. The
  snapshot records of 2001 and 2020 with the local record of 2010 come out as 2020, 2010,
  2001.
\<close>

theorem merger_order:
  "mset (allMovies snapshot items) = mset (read_cmsMovies snapshot @ map localMovie items) \<and>
   descending (map yearOf (allMovies snapshot items)) \<and>
   (\<forall>k. filter (\<lambda>m. yearOf m = k) (allMovies snapshot items) =
        filter (\<lambda>m. yearOf m = k) (read_cmsMovies snapshot @ map localMovie items)) \<and>
   (\<forall>m. data_releaseYear m = None \<or> data_releaseYear m = Some 0 \<longrightarrow> yearOf m = spec_year m) \<and>
   map movie_id (allMovies ex_snapshot ex_items) = [''cms-2020'', ''local-2010'', ''cms-2001''] \<and>
   map releaseYear (allMovies ex_snapshot ex_items) = [Some 2020, Some 2010, Some 2001]"
proof (intro conjI allI impI)
  show "mset (allMovies snapshot items) = mset (read_cmsMovies snapshot @ map localMovie items)"
    by (simp only: allMovies_def Let_def mset_array_sort)
  show "descending (map yearOf (allMovies snapshot items))"
    by (simp only: allMovies_def Let_def descending_array_sort)
  show "filter (\<lambda>m. yearOf m = k) (allMovies snapshot items) =
        filter (\<lambda>m. yearOf m = k) (read_cmsMovies snapshot @ map localMovie items)" for k
    by (simp only: allMovies_def Let_def stable_array_sort)
  show "yearOf m = spec_year m" if "data_releaseYear m = None \<or> data_releaseYear m = Some 0" for m
    using that by (auto simp: yearOf_def spec_year_def num_or_def split: option.splits)
  show "map movie_id (allMovies ex_snapshot ex_items) = [''cms-2020'', ''local-2010'', ''cms-2001'']"
    by (simp add: allMovies_def ex_snapshot_def ex_items_def localMovie_def array_sort_def
        compareFn_def yearOf_def num_or_def present_def)
  show "map releaseYear (allMovies ex_snapshot ex_items) = [Some 2020, Some 2010, Some 2001]"
    by (simp add: allMovies_def ex_snapshot_def ex_items_def localMovie_def array_sort_def
        compareFn_def yearOf_def num_or_def present_def)
qed

text \<open>
  Claim C1 as stated fails: a local record without \<^verbatim>\<open>releaseYear\<close> whose nested
  \<^verbatim>\<open>data.releaseYear\<close> is 2050 is placed before the snapshot records of 2001 and 2020,
  so with a missing \<^verbatim>\<open>releaseYear\<close> counted as 0 the result is not descending.
\<close>

theorem merger_spec_order_counterexample:
  "\<not> descending (map spec_year (allMovies ex_snapshot ex_nested_items))"
  by (simp add: allMovies_def ex_snapshot_def ex_nested_items_def localMovie_def array_sort_def
        compareFn_def yearOf_def num_or_def present_def spec_year_def)

theorem merger_order_witness:
  "data_releaseYear (localMovie (hd ex_items)) = None \<and>
   yearOf (localMovie (hd ex_items)) = spec_year (localMovie (hd ex_items)) \<and>
   descending (map yearOf (allMovies ex_snapshot ex_nested_items))"
  using merger_order [of ex_snapshot ex_nested_items]
  by (simp add: ex_items_def localMovie_def)

section \<open>The client cache and renderer: proofs\<close>

lemma foldl_keeps: "(\<And>q x. g (f q x) = g q) \<Longrightarrow> g (foldl f p xs) = g p"
  by (induction xs arbitrary: p) simp_all

lemma set_update_frame:
  "requests (set_update u p) = requests p"
  "liveMovieState (set_update u p) = liveMovieState p"
  "movieElement (set_update u p) = movieElement p"
  "dom (elements (set_update u p)) = dom (elements p)"
  by (auto simp: set_update_def split: option.splits)

lemma set_loading_frame:
  "requests (set_loading i p) = requests p"
  "liveMovieState (set_loading i p) = liveMovieState p"
  "movieElement (set_loading i p) = movieElement p"
  "dom (elements (set_loading i p)) = dom (elements p)"
  by (auto simp: set_loading_def split: option.splits)

lemma set_na_frame:
  "requests (set_na i p) = requests p"
  "liveMovieState (set_na i p) = liveMovieState p"
  "movieElement (set_na i p) = movieElement p"
  "dom (elements (set_na i p)) = dom (elements p)"
  by (auto simp: set_na_def split: option.splits)

lemma set_plot_error_frame:
  "requests (set_plot_error m p) = requests p"
  "liveMovieState (set_plot_error m p) = liveMovieState p"
  "movieElement (set_plot_error m p) = movieElement p"
  "dom (elements (set_plot_error m p)) = dom (elements p)"
  by (auto simp: set_plot_error_def split: option.splits)

lemma console_frame:
  "requests (console_log s p) = requests p"
  "requests (console_warn s p) = requests p"
  "requests (console_error s p) = requests p"
  "liveMovieState (console_log s p) = liveMovieState p"
  "liveMovieState (console_warn s p) = liveMovieState p"
  "liveMovieState (console_error s p) = liveMovieState p"
  "movieElement (console_log s p) = movieElement p"
  "movieElement (console_warn s p) = movieElement p"
  "movieElement (console_error s p) = movieElement p"
  "elements (console_log s p) = elements p"
  "elements (console_warn s p) = elements p"
  "elements (console_error s p) = elements p"
  by (simp_all add: console_log_def console_warn_def console_error_def)

lemma updateUILoading_frame:
  "requests (updateUILoading p) = requests p"
  "liveMovieState (updateUILoading p) = liveMovieState p"
  "movieElement (updateUILoading p) = movieElement p"
  "dom (elements (updateUILoading p)) = dom (elements p)"
  unfolding updateUILoading_def
  by (rule foldl_keeps, simp add: set_loading_frame)+

lemma updateUIWithError_frame:
  "requests (updateUIWithError m p) = requests p"
  "liveMovieState (updateUIWithError m p) = liveMovieState p"
  "movieElement (updateUIWithError m p) = movieElement p"
  "dom (elements (updateUIWithError m p)) = dom (elements p)"
proof -
  let ?q = "foldl (\<lambda>q i. set_na i q) p live_ids"
  have "requests ?q = requests p" by (rule foldl_keeps) (simp add: set_na_frame)
  then show "requests (updateUIWithError m p) = requests p"
    by (simp add: updateUIWithError_def console_frame set_plot_error_frame)
  have "liveMovieState ?q = liveMovieState p" by (rule foldl_keeps) (simp add: set_na_frame)
  then show "liveMovieState (updateUIWithError m p) = liveMovieState p"
    by (simp add: updateUIWithError_def console_frame set_plot_error_frame)
  have "movieElement ?q = movieElement p" by (rule foldl_keeps) (simp add: set_na_frame)
  then show "movieElement (updateUIWithError m p) = movieElement p"
    by (simp add: updateUIWithError_def console_frame set_plot_error_frame)
  have "dom (elements ?q) = dom (elements p)" by (rule foldl_keeps) (simp add: set_na_frame)
  then show "dom (elements (updateUIWithError m p)) = dom (elements p)"
    by (simp add: updateUIWithError_def console_frame set_plot_error_frame)
qed

lemma updateUI_frame:
  "requests (snd (updateUI v p)) = requests p"
  "liveMovieState (snd (updateUI v p)) = liveMovieState p"
  "movieElement (snd (updateUI v p)) = movieElement p"
  "dom (elements (snd (updateUI v p))) = dom (elements p)"
proof -
  have a: "requests (foldl (\<lambda>q u. set_update u q) p us) = requests p" for us
    by (rule foldl_keeps) (simp add: set_update_frame)
  have b: "liveMovieState (foldl (\<lambda>q u. set_update u q) p us) = liveMovieState p" for us
    by (rule foldl_keeps) (simp add: set_update_frame)
  have c: "movieElement (foldl (\<lambda>q u. set_update u q) p us) = movieElement p" for us
    by (rule foldl_keeps) (simp add: set_update_frame)
  have d: "dom (elements (foldl (\<lambda>q u. set_update u q) p us)) = dom (elements p)" for us
    by (rule foldl_keeps) (simp add: set_update_frame)
  show "requests (snd (updateUI v p)) = requests p"
    by (simp add: updateUI_def console_frame a split: sum.splits)
  show "liveMovieState (snd (updateUI v p)) = liveMovieState p"
    by (simp add: updateUI_def console_frame b split: sum.splits)
  show "movieElement (snd (updateUI v p)) = movieElement p"
    by (simp add: updateUI_def console_frame c split: sum.splits)
  show "dom (elements (snd (updateUI v p))) = dom (elements p)"
    by (simp add: updateUI_def console_frame d split: sum.splits)
qed

lemma error_of_response_frame:
  "requests (snd (error_of_response r p)) = requests p"
  "liveMovieState (snd (error_of_response r p)) = liveMovieState p"
  "movieElement (snd (error_of_response r p)) = movieElement p"
  "elements (snd (error_of_response r p)) = elements p"
  by (simp_all add: error_of_response_def Let_def console_frame split: sum.splits prod.splits option.splits)

lemma region_text_set_update:
  "region_text (set_update u p) i =
     (if i = fst u \<and> elements p i \<noteq> None then Some (text_of (snd u)) else region_text p i)"
  by (auto simp: region_text_def set_update_def split: option.splits)

lemma region_text_foldl_set_update:
  "region_text (foldl (\<lambda>q u. set_update u q) p us) i =
     (case map_of (rev us) i of
        None \<Rightarrow> region_text p i
      | Some v \<Rightarrow> if elements p i = None then None else Some (text_of v))"
proof (induction us rule: rev_induct)
  case Nil
  then show ?case by simp
next
  case (snoc u us)
  have d: "dom (elements (foldl (\<lambda>q u. set_update u q) p us)) = dom (elements p)"
    by (rule foldl_keeps) (simp add: set_update_frame)
  then have e: "elements (foldl (\<lambda>q u. set_update u q) p us) i = None \<longleftrightarrow> elements p i = None"
    by (metis domIff)
  let ?Q = "foldl (\<lambda>q u. set_update u q) p us"
  have step: "region_text (foldl (\<lambda>q u. set_update u q) p (us @ [u])) i =
      (if i = fst u \<and> elements p i \<noteq> None then Some (text_of (snd u)) else region_text ?Q i)"
    using e by (simp add: region_text_set_update)
  have m: "map_of (rev (us @ [u])) i = (if i = fst u then Some (snd u) else map_of (rev us) i)"
    by (cases u) simp
  have none: "elements p i = None \<Longrightarrow> region_text ?Q i = None"
    using e by (simp add: region_text_def)
  show ?case
  proof (cases "i = fst u")
    case True
    then show ?thesis using step m none by simp
  next
    case False
    then show ?thesis using step m snoc.IH by simp
  qed
qed


lemma saveToState_frame:
  "requests (saveToState now t d p) = requests p"
  "movieElement (saveToState now t d p) = movieElement p"
  "elements (saveToState now t d p) = elements p"
  "liveMovieState (saveToState now t d p) =
     (liveMovieState p)(t \<mapsto> \<lparr>data = d, timestamp = now, cached = True\<rparr>)"
  by (simp_all add: saveToState_def console_log_def)

lemma getFromState_frame:
  "requests (snd (getFromState t p)) = requests p"
  "movieElement (snd (getFromState t p)) = movieElement p"
  "elements (snd (getFromState t p)) = elements p"
  "liveMovieState (snd (getFromState t p)) = liveMovieState p"
  by (simp_all add: getFromState_def console_log_def split: option.splits)

lemma fetch_frame:
  "fst (fetch net url p) = net url"
  "requests (snd (fetch net url p)) = requests p @ [url]"
  "movieElement (snd (fetch net url p)) = movieElement p"
  "elements (snd (fetch net url p)) = elements p"
  "liveMovieState (snd (fetch net url p)) = liveMovieState p"
  by (simp_all add: fetch_def)

lemmas page_frame = console_frame updateUILoading_frame updateUIWithError_frame updateUI_frame
  error_of_response_frame saveToState_frame getFromState_frame fetch_frame

lemma loadLiveMovieData_of_try:
  "loadLiveMovieData net now p =
     (case fst (load_try net now p) of
        Inr u \<Rightarrow> snd (load_try net now p)
      | Inl err \<Rightarrow>
          updateUIWithError (message err)
            (console_error (''Error loading live movie data: '' @ message err)
               (snd (load_try net now p))))"
  by (simp add: loadLiveMovieData_def split: prod.splits sum.splits)

lemma getFromState_miss: "liveMovieState p t = None \<Longrightarrow> getFromState t p = (Some JNull, p)"
  by (simp add: getFromState_def)

lemma getFromState_hit:
  "liveMovieState p t = Some entry \<Longrightarrow>
     getFromState t p = (Some (data entry), console_log (''Using cached state for \"'' @ t @ ''\"'') p)"
  by (simp add: getFromState_def)

lemma load_try_miss:
  assumes "movieElement p = Some t" "t \<noteq> []" "liveMovieState p t = None"
  shows "load_try net now p = after_miss net now t (console_log (''Loading live data for: '' @ t) p)"
  using assms
  by (simp add: load_try_def after_miss_def getFromState_miss console_frame(4) Let_def fetch_def
      case_prod_beta split: fetch_outcome.splits sum.splits)

lemma load_try_hit:
  assumes "movieElement p = Some t" "t \<noteq> []" "liveMovieState p t = Some entry"
    "truthy (Some (data entry))"
  shows "load_try net now p =
           updateUI (Some (data entry))
             (console_log ''Using cached data from state''
               (console_log (''Using cached state for \"'' @ t @ ''\"'')
                 (console_log (''Loading live data for: '' @ t) p)))"
  using assms
  by (simp add: load_try_def getFromState_hit console_frame(4) Let_def)

lemma after_miss_requests:
  "requests (snd (after_miss net now t p)) = requests p @ [functionUrl t]"
  by (simp add: after_miss_def Let_def page_frame split: fetch_outcome.splits sum.splits)

lemma after_miss_frame:
  "movieElement (snd (after_miss net now t p)) = movieElement p"
  "dom (elements (snd (after_miss net now t p))) = dom (elements p)"
  "k \<noteq> t \<Longrightarrow> liveMovieState (snd (after_miss net now t p)) k = liveMovieState p k"
  by (simp_all add: after_miss_def Let_def page_frame split: fetch_outcome.splits sum.splits)


lemma region_text_console:
  "region_text (console_log s p) i = region_text p i"
  "region_text (console_warn s p) i = region_text p i"
  "region_text (console_error s p) i = region_text p i"
  by (simp_all add: region_text_def console_frame)

lemma updateUI_truthy:
  "truthy (Some d) \<Longrightarrow>
     updateUI (Some d) q =
       (Inr (), console_log ''UI updated successfully''
                  (foldl (\<lambda>q u. set_update u q) q (updates_of d)))"
  by (cases d) (simp_all add: updateUI_def)

lemma updates_of_live_ids: "i \<in> set live_ids \<Longrightarrow> \<exists>v. map_of (rev (updates_of d)) i = Some v"
  by (auto simp: live_ids_def updates_of_def)

lemma region_text_updateUI_same:
  assumes "truthy (Some d)" "i \<in> set live_ids" "dom (elements q) = dom (elements q')"
  shows "region_text (snd (updateUI (Some d) q)) i = region_text (snd (updateUI (Some d) q')) i"
proof -
  obtain v where v: "map_of (rev (updates_of d)) i = Some v"
    using updates_of_live_ids [OF assms(2)] by blast
  have e: "elements q i = None \<longleftrightarrow> elements q' i = None"
    using assms(3) by (metis domIff)
  show ?thesis
    using v e by (simp add: updateUI_truthy [OF assms(1)] region_text_console
        region_text_foldl_set_update)
qed

lemma fade_in_frame:
  "liveMovieState (fade_in i p) = liveMovieState p"
  "movieElement (fade_in i p) = movieElement p"
  "dom (elements (fade_in i p)) = dom (elements p)"
  "requests (fade_in i p) = requests p"
  "region_text (fade_in i p) j = region_text p j"
  by (auto simp: fade_in_def region_text_def split: option.splits)

text \<open>
  Claim C7. The first request for the title \<open>t\<close> finds no entry, is answered with an ok
  response whose body parses to a truthy document (the proxy answers with an object), and
  so makes one request. The second request starts from a page \<open>p'\<close> that has the cache and
  the title of the page after the first and the same elements (the fade-in callbacks may
  have run in between). It makes no request, whatever the network would answer, and the
  text of each of the five regions is the text after the first request.
\<close>

theorem second_request_uses_cache:
  assumes "movieElement p = Some t" "t \<noteq> []" "liveMovieState p t = None"
    and "net (functionUrl t) = Resolved r" "ok r" "json_body r = Inr d" "truthy (Some d)"
    and "liveMovieState p' = liveMovieState (loadLiveMovieData net now p)"
      "movieElement p' = movieElement p" "dom (elements p') = dom (elements p)"
  shows "requests (loadLiveMovieData net now p) = requests p @ [functionUrl t] \<and>
         requests (loadLiveMovieData net' now' p') = requests p' \<and>
         (\<forall>i \<in> set live_ids.
            region_text (loadLiveMovieData net' now' p') i =
            region_text (loadLiveMovieData net now p) i)"
proof -
  let ?p1 = "console_log (''Loading live data for: '' @ t) p"
  let ?q1 = "saveToState now t d
               (console_log (''Successfully fetched live movie data: '' @ ToString d)
                  (snd (fetch net (functionUrl t)
                     (console_log (''Fetching from: '' @ functionUrl t) (updateUILoading ?p1)))))"
  have try1: "load_try net now p = updateUI (Some d) ?q1"
    using assms(4-6) by (simp add: load_try_miss [OF assms(1-3)] after_miss_def Let_def)
  have first: "loadLiveMovieData net now p = snd (updateUI (Some d) ?q1)"
    by (simp add: loadLiveMovieData_of_try try1 updateUI_truthy [OF assms(7)])
  have req1: "requests (loadLiveMovieData net now p) = requests p @ [functionUrl t]"
    by (simp add: first page_frame)
  have cache1: "liveMovieState (loadLiveMovieData net now p) t =
                  Some \<lparr>data = d, timestamp = now, cached = True\<rparr>"
    by (simp add: first page_frame)
  have dom1: "dom (elements ?q1) = dom (elements p)"
    by (simp add: page_frame)
  let ?q2 = "console_log ''Using cached data from state''
               (console_log (''Using cached state for \"'' @ t @ ''\"'')
                 (console_log (''Loading live data for: '' @ t) p'))"
  have hit: "liveMovieState p' t = Some \<lparr>data = d, timestamp = now, cached = True\<rparr>"
    using assms(8) cache1 by simp
  have try2: "load_try net' now' p' = updateUI (Some d) ?q2"
    using load_try_hit [of p' t "\<lparr>data = d, timestamp = now, cached = True\<rparr>" net' now']
      assms(1,2,7,9) hit by simp
  have second: "loadLiveMovieData net' now' p' = snd (updateUI (Some d) ?q2)"
    by (simp add: loadLiveMovieData_of_try try2 updateUI_truthy [OF assms(7)])
  have req2: "requests (loadLiveMovieData net' now' p') = requests p'"
    by (simp add: second page_frame)
  have dom2: "dom (elements ?q2) = dom (elements ?q1)"
    using assms(10) dom1 by (simp add: page_frame)
  have texts: "region_text (loadLiveMovieData net' now' p') i =
               region_text (loadLiveMovieData net now p) i" if "i \<in> set live_ids" for i
    unfolding first second
    by (rule region_text_updateUI_same [OF assms(7) that dom2])
  from req1 req2 texts show ?thesis by blast
qed

lemma load_try_frame:
  "movieElement (snd (load_try net now p)) = movieElement p"
  "dom (elements (snd (load_try net now p))) = dom (elements p)"
  by (simp_all add: load_try_def Let_def case_prod_beta page_frame
      split: option.splits fetch_outcome.splits sum.splits)

lemma loadLiveMovieData_frame:
  "movieElement (loadLiveMovieData net now p) = movieElement p"
  "dom (elements (loadLiveMovieData net now p)) = dom (elements p)"
  by (simp_all add: loadLiveMovieData_of_try load_try_frame page_frame split: sum.splits)

theorem second_request_uses_cache_witness:
  "movieElement ex_page = Some ''Inception'' \<and> liveMovieState ex_page ''Inception'' = None \<and>
   ok (json_response 200 ex_live) \<and> truthy (Some ex_live) \<and>
   requests (loadLiveMovieData ex_function 0 ex_page) =
     [''/.netlify/functions/movie?title=Inception''] \<and>
   requests (loadLiveMovieData ex_unreachable 1 (loadLiveMovieData ex_function 0 ex_page)) =
     [''/.netlify/functions/movie?title=Inception''] \<and>
   region_text (loadLiveMovieData ex_unreachable 1 (loadLiveMovieData ex_function 0 ex_page))
     ''live-plot'' =
   region_text (loadLiveMovieData ex_function 0 ex_page) ''live-plot''"
  using second_request_uses_cache
      [where p = ex_page and t = "''Inception''" and net = ex_function
         and r = "json_response 200 ex_live" and d = ex_live
         and p' = "loadLiveMovieData ex_function 0 ex_page" and now = 0
         and net' = ex_unreachable and now' = 1]
  by (simp add: ex_page_def ex_function_def json_response_def ok_def ex_live_def
      loadLiveMovieData_frame functionUrl_def encodeURIComponent_def unreserved_def
      live_ids_def)

lemma loadLiveMovieData_miss_frame:
  assumes "movieElement p = Some t" "liveMovieState p t = None"
  shows "k \<noteq> t \<Longrightarrow> liveMovieState (loadLiveMovieData net now p) k = liveMovieState p k"
    and "t \<noteq> [] \<Longrightarrow> requests (loadLiveMovieData net now p) = requests p @ [functionUrl t]"
proof -
  show "liveMovieState (loadLiveMovieData net now p) k = liveMovieState p k" if "k \<noteq> t"
  proof (cases "t = []")
    case True
    then show ?thesis
      using assms(1) by (simp add: loadLiveMovieData_def load_try_def page_frame)
  next
    case False
    show ?thesis
      using that
      by (simp add: loadLiveMovieData_of_try load_try_miss [OF assms(1) False assms(2)]
          page_frame after_miss_frame split: sum.splits)
  qed
  show "requests (loadLiveMovieData net now p) = requests p @ [functionUrl t]" if "t \<noteq> []"
    by (simp add: loadLiveMovieData_of_try load_try_miss [OF assms(1) that assms(2)]
        page_frame after_miss_requests split: sum.splits)
qed

lemma clear_current_frame:
  "movieElement (clear_current p) = movieElement p"
  "requests (clear_current p) = requests p"
  "elements (clear_current p) = elements p"
  by (simp_all add: clear_current_def console_log_def Let_def split: option.splits)

lemma clear_current_cache:
  "movieElement p = Some t \<Longrightarrow> liveMovieState (clear_current p) = (liveMovieState p)(t := None)"
  by (simp add: clear_current_def console_log_def Let_def)

text \<open>
  Claim C9. On a page with the title \<open>t\<close>, the refresh deletes the entry of \<open>t\<close> from the
  cache and nothing else, then runs the load: the entry of every other title is after the
  whole operation what it was before, and (the title not being empty) the load finds no
  entry and makes a new request for \<open>t\<close>.
\<close>

theorem refresh_clears_only_current:
  assumes "movieElement p = Some t"
  shows "liveMovieState (clear_current p) = (liveMovieState p)(t := None) \<and>
         (\<forall>k. k \<noteq> t \<longrightarrow> liveMovieState (refreshMovieData net now p) k = liveMovieState p k) \<and>
         (t \<noteq> [] \<longrightarrow> requests (refreshMovieData net now p) = requests p @ [functionUrl t])"
proof -
  have m: "movieElement (clear_current p) = Some t"
    using assms by (simp add: clear_current_frame)
  have c: "liveMovieState (clear_current p) = (liveMovieState p)(t := None)"
    by (rule clear_current_cache [OF assms])
  then have n: "liveMovieState (clear_current p) t = None" by simp
  have f: "liveMovieState (refreshMovieData net now p) k = liveMovieState p k" if "k \<noteq> t" for k
    using loadLiveMovieData_miss_frame(1) [OF m n that, of net now] that c
    by (simp add: refreshMovieData_def)
  have r: "requests (refreshMovieData net now p) = requests p @ [functionUrl t]" if "t \<noteq> []"
    using loadLiveMovieData_miss_frame(2) [OF m n that, of net now]
    by (simp add: refreshMovieData_def clear_current_frame)
  from c f r show ?thesis by blast
qed

theorem refresh_clears_only_current_witness:
  "movieElement ex_page_cached = Some ''Inception'' \<and>
   liveMovieState ex_page_cached ''Inception'' \<noteq> None \<and>
   liveMovieState (clear_current ex_page_cached) ''Inception'' = None \<and>
   liveMovieState (refreshMovieData ex_unreachable 5 ex_page_cached) ''Heat'' =
     Some \<lparr>data = JObj [(''plot'', JStr ''A heist.'')], timestamp = 2, cached = True\<rparr> \<and>
   requests (refreshMovieData ex_unreachable 5 ex_page_cached) =
     [''/.netlify/functions/movie?title=Inception'']"
  using refresh_clears_only_current
      [where p = ex_page_cached and t = "''Inception''" and net = ex_unreachable and now = 5]
  by (simp add: ex_page_cached_def ex_page_def functionUrl_def encodeURIComponent_def
      unreserved_def)

lemma region_text_set_na:
  "region_text (set_na j p) i =
     (if i = j \<and> elements p i \<noteq> None then Some ''N/A'' else region_text p i)"
  by (auto simp: region_text_def set_na_def split: option.splits)

lemma region_text_foldl_set_na:
  "region_text (foldl (\<lambda>q i. set_na i q) p js) i =
     (if i \<in> set js \<and> elements p i \<noteq> None then Some ''N/A'' else region_text p i)"
proof (induction js rule: rev_induct)
  case Nil
  then show ?case by simp
next
  case (snoc j js)
  have "dom (elements (foldl (\<lambda>q i. set_na i q) p js)) = dom (elements p)"
    by (rule foldl_keeps) (simp add: set_na_frame)
  then have e: "elements (foldl (\<lambda>q i. set_na i q) p js) i = None \<longleftrightarrow> elements p i = None"
    by (metis domIff)
  show ?case
    using snoc e by (simp add: region_text_set_na)
qed

lemma region_text_set_plot_error:
  "region_text (set_plot_error m p) i =
     (if i = ''live-plot'' \<and> elements p i \<noteq> None then Some (error_text m) else region_text p i)"
  by (auto simp: region_text_def set_plot_error_def split: option.splits)

lemma region_text_updateUIWithError:
  "region_text (updateUIWithError m p) i =
     (if elements p i = None then None
      else if i = ''live-plot'' then Some (error_text m)
      else if i \<in> set live_ids then Some ''N/A''
      else region_text p i)"
proof -
  have "dom (elements (foldl (\<lambda>q i. set_na i q) p live_ids)) = dom (elements p)"
    by (rule foldl_keeps) (simp add: set_na_frame)
  then have e: "elements (foldl (\<lambda>q i. set_na i q) p live_ids) i = None \<longleftrightarrow> elements p i = None"
    by (metis domIff)
  have n: "elements p i = None \<Longrightarrow> region_text p i = None"
    by (simp add: region_text_def)
  show ?thesis
    using e n
    by (simp add: updateUIWithError_def region_text_console region_text_set_plot_error
        region_text_foldl_set_na)
qed

lemma error_text_no_title:
  "error_text ''Movie title not specified'' = ''Unable to load live data: Movie title not specified''"
  by (simp add: error_text_def)

text \<open>
  Claim C10. When the element with the \<^verbatim>\<open>data-movie-title\<close> attribute is there and the
  value of the attribute is empty, the load makes no request and renders the error state:
  all five regions are set to \<^verbatim>\<open>N/A\<close>, then the plot region is set to the generic
  explanation with \<^verbatim>\<open>Movie title not specified\<close>; in the end the regions for rating,
  runtime, genre and actors show \<^verbatim>\<open>N/A\<close> and the plot region shows the explanation (a
  region is an element the page has). When there is no element with the attribute the
  load leaves every element as it is.
\<close>

theorem empty_title_renders_error:
  assumes "movieElement p = Some []"
  shows "requests (loadLiveMovieData net now p) = requests p \<and>
    (\<forall>i \<in> set [''live-rating'', ''live-runtime'', ''live-genre'', ''live-actors''].
        region_text (loadLiveMovieData net now p) i =
          (if elements p i = None then None else Some ''N/A'')) \<and>
    region_text (loadLiveMovieData net now p) ''live-plot'' =
      (if elements p ''live-plot'' = None then None
       else Some ''Unable to load live data: Movie title not specified'') \<and>
    loadLiveMovieData net now p =
      console_error ''UI updated with error state''
        (set_plot_error ''Movie title not specified''
          (foldl (\<lambda>q i. set_na i q) (console_warn ''Movie title is empty'' p) live_ids)) \<and>
    (\<forall>i \<in> set live_ids.
        region_text (foldl (\<lambda>q i. set_na i q) (console_warn ''Movie title is empty'' p) live_ids) i =
          (if elements p i = None then None else Some ''N/A'')) \<and>
    (movieElement q = None \<longrightarrow>
       elements (loadLiveMovieData net now q) = elements q \<and>
       requests (loadLiveMovieData net now q) = requests q)"
proof -
  have l: "loadLiveMovieData net now p =
             updateUIWithError ''Movie title not specified''
               (console_warn ''Movie title is empty'' p)"
    using assms by (simp add: loadLiveMovieData_def load_try_def)
  have 1: "requests (loadLiveMovieData net now p) = requests p"
    by (simp add: l page_frame)
  have 2: "\<forall>i \<in> set [''live-rating'', ''live-runtime'', ''live-genre'', ''live-actors''].
        region_text (loadLiveMovieData net now p) i =
          (if elements p i = None then None else Some ''N/A'')"
    by (simp add: l region_text_updateUIWithError console_frame live_ids_def)
  have 3: "region_text (loadLiveMovieData net now p) ''live-plot'' =
      (if elements p ''live-plot'' = None then None
       else Some ''Unable to load live data: Movie title not specified'')"
    by (simp add: l region_text_updateUIWithError console_frame error_text_no_title)
  have 4: "movieElement q = None \<longrightarrow>
       elements (loadLiveMovieData net now q) = elements q \<and>
       requests (loadLiveMovieData net now q) = requests q"
    by (simp add: loadLiveMovieData_def load_try_def console_frame)
  have 5: "loadLiveMovieData net now p =
      console_error ''UI updated with error state''
        (set_plot_error ''Movie title not specified''
          (foldl (\<lambda>q i. set_na i q) (console_warn ''Movie title is empty'' p) live_ids))"
    by (simp add: l updateUIWithError_def)
  have 6: "\<forall>i \<in> set live_ids.
        region_text (foldl (\<lambda>q i. set_na i q) (console_warn ''Movie title is empty'' p) live_ids) i =
          (if elements p i = None then None else Some ''N/A'')"
  proof
    fix i
    assume "i \<in> set live_ids"
    moreover have "elements p i = None \<Longrightarrow> region_text p i = None"
      by (simp add: region_text_def)
    ultimately show "region_text (foldl (\<lambda>q i. set_na i q)
          (console_warn ''Movie title is empty'' p) live_ids) i =
        (if elements p i = None then None else Some ''N/A'')"
      by (simp add: region_text_foldl_set_na console_frame region_text_console)
  qed
  from 1 2 3 4 5 6 show ?thesis by blast
qed

theorem empty_title_renders_error_witness:
  "movieElement ex_page_empty_title = Some [] \<and>
   requests (loadLiveMovieData ex_function 0 ex_page_empty_title) = [] \<and>
   region_text (loadLiveMovieData ex_function 0 ex_page_empty_title) ''live-rating'' = Some ''N/A'' \<and>
   region_text (loadLiveMovieData ex_function 0 ex_page_empty_title) ''live-genre'' = None \<and>
   region_text (loadLiveMovieData ex_function 0 ex_page_empty_title) ''live-plot'' =
     Some ''Unable to load live data: Movie title not specified'' \<and>
   movieElement ex_page_no_title = None \<and>
   elements (loadLiveMovieData ex_function 0 ex_page_no_title) = elements ex_page_no_title"
proof -
  have h: "movieElement ex_page_empty_title = Some []"
    by (simp add: ex_page_empty_title_def)
  have n: "movieElement ex_page_no_title = None"
    by (simp add: ex_page_no_title_def)
  have e: "elements ex_page_empty_title ''live-rating'' \<noteq> None"
    "elements ex_page_empty_title ''live-genre'' = None"
    "elements ex_page_empty_title ''live-plot'' \<noteq> None"
    "requests ex_page_empty_title = []"
    by (simp_all add: ex_page_empty_title_def ex_page_def)
  note t = empty_title_renders_error
    [OF h, where q = ex_page_no_title and net = ex_function and now = 0]
  note t1 = t [THEN conjunct1]
  note t2 = t [THEN conjunct2, THEN conjunct1]
  note t3 = t [THEN conjunct2, THEN conjunct2, THEN conjunct1]
  note t6 = t [THEN conjunct2, THEN conjunct2, THEN conjunct2, THEN conjunct2, THEN conjunct2]
  have 1: "requests (loadLiveMovieData ex_function 0 ex_page_empty_title) = []"
    using t1 e(4) by simp
  have 2: "region_text (loadLiveMovieData ex_function 0 ex_page_empty_title) ''live-rating'' =
             Some ''N/A''"
    "region_text (loadLiveMovieData ex_function 0 ex_page_empty_title) ''live-genre'' = None"
    using t2 e(1,2) by simp_all
  have 3: "region_text (loadLiveMovieData ex_function 0 ex_page_empty_title) ''live-plot'' =
             Some ''Unable to load live data: Movie title not specified''"
    using t3 e(3) by simp
  have 4: "elements (loadLiveMovieData ex_function 0 ex_page_no_title) =
             elements ex_page_no_title"
    using t6 n by simp
  from h n 1 2 3 4 show ?thesis by blast
qed

end
